theory Spec2Isabelle
  imports Complex_Main "HOL-Library.Char_ord" "HOL-Library.List_Lexorder" "HOL-Library.Multiset"
begin

section \<open>Values, dictionaries and table cells\<close>

text \<open>
  The module works on pandas objects and returns plain Python dictionaries. A dictionary
  value is one of: \<open>None\<close>, a float NaN, a number, or a string. Numbers are real: Python's
  \<open>0 == 0.0\<close> holds, so the int/float distinction of a stored number is not represented,
  and floating-point rounding error is outside the model. Strings are byte lists, the
  non-ASCII literals of the source being written in UTF-8.
\<close>

datatype pyval = PNone | PNaN | PNum real | PStr string

type_synonym pydict = "string \<rightharpoonup> pyval"

text \<open>A cell of a DataFrame or Series: missing (NaN), an integer, or a string.\<close>

datatype cell = CNaN | CInt int | CStr string

datatype py_error = TypeError | ZeroDivisionError

text \<open>\<open>dict.get(key, default)\<close>.\<close>

definition dict_get :: "pydict \<Rightarrow> string \<Rightarrow> pyval \<Rightarrow> pyval" where
  "dict_get d k dflt = (case d k of None \<Rightarrow> dflt | Some v \<Rightarrow> v)"

section \<open>Number formatting and rounding\<close>

definition digit_char :: "nat \<Rightarrow> char" where
  "digit_char d = ''0123456789'' ! d"

fun digits :: "nat \<Rightarrow> string" where
  "digits n = (if n < 10 then [digit_char n] else digits (n div 10) @ [digit_char (n mod 10)])"

declare digits.simps [simp del]

text \<open>\<open>str(i)\<close> for an integer.\<close>

definition str_int :: "int \<Rightarrow> string" where
  "str_int i = (if i < 0 then ''-'' @ digits (nat (- i)) else digits (nat i))"

text \<open>\<open>str(v)\<close> for a cell value.\<close>

fun str_cell :: "cell \<Rightarrow> string" where
  "str_cell CNaN = ''nan''"
| "str_cell (CInt i) = str_int i"
| "str_cell (CStr s) = s"

text \<open>A cell stored as a dictionary value.\<close>

fun cell_val :: "cell \<Rightarrow> pyval" where
  "cell_val CNaN = PNaN"
| "cell_val (CInt i) = PNum (of_int i)"
| "cell_val (CStr s) = PStr s"

text \<open>
  \<open>f"{td.total_seconds():.3f}s"\<close> for a time difference of \<open>us\<close> microseconds (the
  resolution of \<open>datetime\<close>). \<open>total_seconds()\<close> is the float nearest to
  \<open>us / 10 ^ 6\<close>: with \<open>e\<close> the exponent that brings the quotient into
  \<open>[2 ^ 52, 2 ^ 53)\<close> it is \<open>m / 2 ^ e\<close> for the integer \<open>m\<close> nearest to
  \<open>us * 2 ^ e / 10 ^ 6\<close>, ties to even. The format then prints the multiple of a
  millisecond nearest to that float, ties to even. (A \<open>timedelta\<close> is below
  \<open>10 ^ 20\<close> microseconds, so the exponent is never negative.)
\<close>

function binary_exponent :: "nat \<Rightarrow> nat \<Rightarrow> nat" where
  "binary_exponent a e =
     (if a = 0 \<or> 2 ^ 52 * 10 ^ 6 \<le> a * 2 ^ e then e else binary_exponent a (Suc e))"
  by pat_completeness auto
termination
proof (relation "measure (\<lambda>(a, e). 2 ^ 52 * 10 ^ 6 - a * 2 ^ e)")
  show "wf (measure (\<lambda>(a, e). 2 ^ 52 * 10 ^ 6 - a * 2 ^ e))" by simp
next
  fix a e :: nat
  assume "\<not> (a = 0 \<or> 2 ^ 52 * 10 ^ 6 \<le> a * 2 ^ e)"
  then have pos: "0 < a" and lt: "a * 2 ^ e < 2 ^ 52 * 10 ^ 6" by simp_all
  have "a * 2 ^ e < a * 2 ^ Suc e" using pos by simp
  then have "2 ^ 52 * 10 ^ 6 - a * 2 ^ Suc e < 2 ^ 52 * 10 ^ 6 - a * 2 ^ e"
    using lt by (rule diff_less_mono2)
  then show "((a, Suc e), (a, e)) \<in> measure (\<lambda>(a, e). 2 ^ 52 * 10 ^ 6 - a * 2 ^ e)"
    by simp
qed

declare binary_exponent.simps [simp del]

text \<open>The integer nearest to \<open>n / d\<close>, a tie going to the even neighbour.\<close>

definition round_div :: "nat \<Rightarrow> nat \<Rightarrow> nat" where
  "round_div n d =
     (let q = n div d; r = n mod d
      in if 2 * r < d then q else if d < 2 * r then q + 1 else if even q then q else q + 1)"

definition format_seconds :: "int \<Rightarrow> string" where
  "format_seconds us =
     (let a = nat \<bar>us\<bar>;
          e = binary_exponent a 0;
          m = round_div (a * 2 ^ e) (10 ^ 6);
          ms = round_div (m * 1000) (2 ^ e)
      in (if us < 0 then ''-'' else []) @ digits (ms div 1000) @ ''.''
           @ [digit_char (ms mod 1000 div 100), digit_char (ms mod 100 div 10), digit_char (ms mod 10)]
           @ ''s'')"

text \<open>
  \<open>round(x, nd)\<close>: Python rounds to the nearest multiple of \<open>10 ^ - nd\<close>, a tie going
  to the even neighbour.
\<close>

definition round_half_even :: "real \<Rightarrow> int" where
  "round_half_even x =
     (let f = \<lfloor>x\<rfloor>; d = x - of_int f
      in if d < 1 / 2 then f else if 1 / 2 < d then f + 1 else if even f then f else f + 1)"

definition py_round :: "real \<Rightarrow> nat \<Rightarrow> real" where
  "py_round x nd = of_int (round_half_even (x * 10 ^ nd)) / 10 ^ nd"

section \<open>Rating encoder\<close>

text \<open>
  A rating-to-score table is a Python dictionary from symbols to a score or \<open>None\<close>,
  kept as an association list. The built-in table is used when \<open>config\<close> cannot be
  imported; its nine keys are the eight rating symbols and the placeholder \<open>'-'\<close>.
\<close>

type_synonym rating_map_t = "(string \<times> int option) list"

definition default_rating_score_map :: rating_map_t where
  "default_rating_score_map =
     [([CHR 0xE5, CHR 0xA4, CHR 0xA7, CHR 0xE5, CHR 0xA4, CHR 0x9A], Some 7),
      ([CHR 0xE4, CHR 0xB8, CHR 0xAD, CHR 0xE5, CHR 0xA4, CHR 0x9A], Some 6),
      ([CHR 0xE5, CHR 0xB0, CHR 0x8F, CHR 0xE5, CHR 0xA4, CHR 0x9A], Some 5),
      ([CHR 0xE5, CHR 0xBE, CHR 0xAE, CHR 0xE5, CHR 0xA4, CHR 0x9A], Some 4),
      ([CHR 0xE5, CHR 0xBE, CHR 0xAE, CHR 0xE7, CHR 0xA9, CHR 0xBA], Some 3),
      ([CHR 0xE5, CHR 0xB0, CHR 0x8F, CHR 0xE7, CHR 0xA9, CHR 0xBA], Some 2),
      ([CHR 0xE4, CHR 0xB8, CHR 0xAD, CHR 0xE7, CHR 0xA9, CHR 0xBA], Some 1),
      ([CHR 0xE5, CHR 0xA4, CHR 0xA7, CHR 0xE7, CHR 0xA9, CHR 0xBA], Some 0),
      (''-'', None)]"

text \<open>
  The module-level \<open>RATING_SCORE_MAP\<close>: the table of \<open>config\<close> when the import succeeds
  (\<open>Some\<close>), the built-in one when it raises ImportError (\<open>None\<close>).
\<close>

definition module_rating_score_map :: "rating_map_t option \<Rightarrow> rating_map_t" where
  "module_rating_score_map config =
     (case config of Some m \<Rightarrow> m | None \<Rightarrow> default_rating_score_map)"

text \<open>
  \<open>stock_ratings.map(RATING_SCORE_MAP).dropna()\<close>: a cell whose value is no key of the
  table, or is mapped to \<open>None\<close>, becomes missing and is dropped; the order is kept.
\<close>

fun lookup_score :: "rating_map_t \<Rightarrow> cell \<Rightarrow> int option" where
  "lookup_score m (CStr s) = (case map_of m s of Some (Some v) \<Rightarrow> Some v | _ \<Rightarrow> None)"
| "lookup_score m c = None"

fun map_dropna :: "rating_map_t \<Rightarrow> cell list \<Rightarrow> int list" where
  "map_dropna m [] = []"
| "map_dropna m (c # cs) =
     (case lookup_score m c of None \<Rightarrow> map_dropna m cs | Some v \<Rightarrow> v # map_dropna m cs)"

section \<open>Single-sequence scoring\<close>

definition get_insufficient_data_result :: "nat \<Rightarrow> pydict" where
  "get_insufficient_data_result data_points =
     [''rtsi'' \<mapsto> PNum 0,
      ''trend'' \<mapsto> PStr ''insufficient_data'',
      ''confidence'' \<mapsto> PNum 0,
      ''slope'' \<mapsto> PNum 0,
      ''r_squared'' \<mapsto> PNum 0,
      ''recent_score'' \<mapsto> PNone,
      ''score_change_5d'' \<mapsto> PNone,
      ''data_points'' \<mapsto> PNum (of_nat data_points),
      ''calculation_time'' \<mapsto> PStr ''0.001s'']"

definition determine_trend_direction :: "real \<Rightarrow> real \<Rightarrow> string" where
  "determine_trend_direction slope significance =
     (if significance < 0.3 then ''neutral''
      else if slope > 0.15 \<and> significance > 0.7 then ''strong_bull''
      else if slope > 0.08 \<and> significance > 0.5 then ''moderate_bull''
      else if slope > 0.03 then ''weak_bull''
      else if slope < - 0.15 \<and> significance > 0.7 then ''strong_bear''
      else if slope < - 0.08 \<and> significance > 0.5 then ''moderate_bear''
      else if slope < - 0.03 then ''weak_bear''
      else ''neutral'')"

definition classify_rtsi_by_value :: "real \<Rightarrow> string" where
  "classify_rtsi_by_value rtsi_value =
     (if rtsi_value \<ge> 75 then ''strong_bull''
      else if rtsi_value \<ge> 60 then ''moderate_bull''
      else if rtsi_value \<ge> 50 then ''weak_bull''
      else if rtsi_value \<ge> 40 then ''neutral''
      else if rtsi_value \<ge> 30 then ''weak_bear''
      else if rtsi_value \<ge> 20 then ''moderate_bear''
      else ''strong_bear'')"

definition calculate_score_change :: "int list \<Rightarrow> nat \<Rightarrow> pyval" where
  "calculate_score_change scores days =
     (if length scores < days + 1 then PNone
      else PNum (of_int (last scores - scores ! (length scores - (days + 1)))))"

text \<open>
  \<open>scipy.stats.linregress\<close> is a library routine, not code of this module: it is a
  parameter, returning either the description \<open>str(e)\<close> of the exception it raised or the
  tuple \<open>(slope, intercept, r_value, p_value, std_err)\<close>. The wall clock is a parameter
  too: \<open>elapsed\<close> is \<open>datetime.now() - calculation_start\<close> in microseconds at the point
  where the result is built. \<open>None\<close> as argument is Python's \<open>None\<close>.
\<close>

type_synonym linregress_t = "nat list \<Rightarrow> int list \<Rightarrow> string + (real \<times> real \<times> real \<times> real \<times> real)"

definition calculate_rating_trend_strength_index ::
  "rating_map_t \<Rightarrow> linregress_t \<Rightarrow> int \<Rightarrow> cell list option \<Rightarrow> pydict" where
  "calculate_rating_trend_strength_index RATING_SCORE_MAP linregress elapsed stock_ratings =
     (case stock_ratings of
        None \<Rightarrow> get_insufficient_data_result 0
      | Some ratings \<Rightarrow>
          if length ratings = 0 then get_insufficient_data_result 0
          else
            let scores = map_dropna RATING_SCORE_MAP ratings in
            if length scores < 5 then get_insufficient_data_result (length scores)
            else
              (case linregress [0..<length scores] scores of
                 Inr (slope, intercept, r_value, p_value, std_err) \<Rightarrow>
                   let consistency = r_value ^ 2;
                       significance = (if p_value < 0.05 then max 0 (1 - p_value) else 0);
                       rating_scale_max = 7;
                       amplitude = \<bar>slope\<bar> * of_nat (length scores) / rating_scale_max;
                       amplitude = min amplitude 1.0;
                       rtsi = (consistency * 0.4 + significance * 0.3 + amplitude * 0.3) * 100;
                       trend_direction = determine_trend_direction slope significance;
                       recent_score = (if length scores > 0 then PNum (of_int (last scores))
                                       else PNone);
                       score_change_5d = calculate_score_change scores 5;
                       calculation_time = format_seconds elapsed
                   in [''rtsi'' \<mapsto> PNum (py_round rtsi 2),
                       ''trend'' \<mapsto> PStr trend_direction,
                       ''confidence'' \<mapsto> PNum (py_round significance 3),
                       ''slope'' \<mapsto> PNum (py_round slope 4),
                       ''r_squared'' \<mapsto> PNum (py_round consistency 3),
                       ''recent_score'' \<mapsto> recent_score,
                       ''score_change_5d'' \<mapsto> score_change_5d,
                       ''data_points'' \<mapsto> PNum (of_nat (length scores)),
                       ''calculation_time'' \<mapsto> PStr calculation_time]
               | Inl e \<Rightarrow>
                   [''rtsi'' \<mapsto> PNum 0,
                    ''trend'' \<mapsto> PStr ''calculation_error'',
                    ''confidence'' \<mapsto> PNum 0,
                    ''error'' \<mapsto> PStr e,
                    ''data_points'' \<mapsto> PNum (of_nat (length scores)),
                    ''calculation_time'' \<mapsto> PStr (format_seconds elapsed)]))"

section \<open>Batch engine\<close>

text \<open>
  A row or column label of a DataFrame: an integer or a string. A DataFrame is its column
  labels and its rows in order, each row with its index label and its cells by column
  label; every row of a DataFrame has a cell in every column.
\<close>

datatype label = is_LInt: LInt (the_int: int) | is_LStr: LStr (the_str: string)

fun str_label :: "label \<Rightarrow> string" where
  "str_label (LInt i) = str_int i"
| "str_label (LStr s) = s"

record row =
  idx :: label
  cells :: "label \<rightharpoonup> cell"

record dataframe =
  columns :: "label list"
  rows :: "row list"

text \<open>\<open>str.startswith\<close>.\<close>

definition startswith :: "string \<Rightarrow> string \<Rightarrow> bool" where
  "startswith s p = (take (length p) s = p)"

text \<open>\<open>row.get(key, default)\<close> and \<open>row[date_columns]\<close>.\<close>

definition row_get :: "row \<Rightarrow> label \<Rightarrow> cell \<Rightarrow> cell" where
  "row_get r k dflt = (case cells r k of None \<Rightarrow> dflt | Some c \<Rightarrow> c)"

definition row_select :: "row \<Rightarrow> label list \<Rightarrow> cell list" where
  "row_select r cols = map (\<lambda>c. row_get r c CNaN) cols"

text \<open>
  \<open>results[key] = value\<close> on a dictionary in insertion order: an existing key keeps its
  place and takes the new value, a new key goes to the end.
\<close>

fun dict_set :: "('k \<times> 'v) list \<Rightarrow> 'k \<Rightarrow> 'v \<Rightarrow> ('k \<times> 'v) list" where
  "dict_set [] k v = [(k, v)]"
| "dict_set ((k', v') # ps) k v = (if k' = k then (k, v) # ps else (k', v') # dict_set ps k v)"

text \<open>
  The UTF-8 bytes of the source's Chinese literals: the column labels for stock code, stock
  name and industry, the default stock name and industry of the batch, and the default
  name of the ranking.
\<close>

definition col_stock_code :: string where
  "col_stock_code = [CHR 0xE8, CHR 0x82, CHR 0xA1, CHR 0xE7, CHR 0xA5, CHR 0xA8,
                     CHR 0xE4, CHR 0xBB, CHR 0xA3, CHR 0xE7, CHR 0xA0, CHR 0x81]"

definition col_stock_name :: string where
  "col_stock_name = [CHR 0xE8, CHR 0x82, CHR 0xA1, CHR 0xE7, CHR 0xA5, CHR 0xA8,
                     CHR 0xE5, CHR 0x90, CHR 0x8D, CHR 0xE7, CHR 0xA7, CHR 0xB0]"

definition col_industry :: string where
  "col_industry = [CHR 0xE8, CHR 0xA1, CHR 0x8C, CHR 0xE4, CHR 0xB8, CHR 0x9A]"

definition unknown_stock :: string where
  "unknown_stock = [CHR 0xE6, CHR 0x9C, CHR 0xAA, CHR 0xE7, CHR 0x9F, CHR 0xA5,
                    CHR 0xE8, CHR 0x82, CHR 0xA1, CHR 0xE7, CHR 0xA5, CHR 0xA8]"

definition unclassified :: string where
  "unclassified = [CHR 0xE6, CHR 0x9C, CHR 0xAA, CHR 0xE5, CHR 0x88, CHR 0x86,
                   CHR 0xE7, CHR 0xB1, CHR 0xBB]"

definition unknown_name :: string where
  "unknown_name = [CHR 0xE6, CHR 0x9C, CHR 0xAA, CHR 0xE7, CHR 0x9F, CHR 0xA5]"

text \<open>
  \<open>[col for col in stock_data.columns if str(col).startswith('202')]\<close>: the test reads
  the label as a string, the list keeps the labels themselves.
\<close>

definition selected_columns :: "dataframe \<Rightarrow> label list" where
  "selected_columns stock_data =
     filter (\<lambda>col. startswith (str_label col) ''202'') (columns stock_data)"

text \<open>
  \<open>date_columns.sort()\<close> compares the labels themselves: integers by value, strings in
  the lexicographic order of their code points (which is that of the UTF-8 bytes), and an
  integer with a string not at all: sorting a list that holds both raises TypeError.
\<close>

definition sort_labels :: "label list \<Rightarrow> py_error + label list" where
  "sort_labels ls =
     (if list_all is_LInt ls then Inr (map LInt (sort (map the_int ls)))
      else if list_all is_LStr ls then Inr (map LStr (sort (map the_str ls)))
      else Inl TypeError)"

definition date_columns_of :: "dataframe \<Rightarrow> py_error + label list" where
  "date_columns_of stock_data = sort_labels (selected_columns stock_data)"

definition stock_code_of :: "row \<Rightarrow> string" where
  "stock_code_of r =
     str_cell (row_get r (LStr col_stock_code) (CStr (''STOCK_'' @ str_label (idx r))))"

text \<open>
  The progress test \<open>(idx + 1) % 1000 == 0\<close> at the end of the loop body: adding 1 to a
  string label raises TypeError. The \<open>print\<close> calls themselves are not modelled.
\<close>

fun progress_due :: "label \<Rightarrow> py_error + bool" where
  "progress_due (LInt i) = Inr ((i + 1) mod 1000 = 0)"
| "progress_due (LStr s) = Inl TypeError"

text \<open>
  The loop over \<open>iterrows()\<close>; \<open>clock k\<close> is the elapsed time that the \<open>k\<close>-th
  scoring call reads. An exception leaves the loop and the function.
\<close>

fun batch_rows ::
  "rating_map_t \<Rightarrow> linregress_t \<Rightarrow> (nat \<Rightarrow> int) \<Rightarrow> label list \<Rightarrow> nat \<Rightarrow> row list
     \<Rightarrow> (string \<times> pydict) list \<Rightarrow> py_error + (string \<times> pydict) list" where
  "batch_rows RATING_SCORE_MAP linregress clock date_columns k [] results = Inr results"
| "batch_rows RATING_SCORE_MAP linregress clock date_columns k (r # rs) results =
     (let stock_code = stock_code_of r;
          stock_name = row_get r (LStr col_stock_name) (CStr unknown_stock);
          stock_ratings = row_select r date_columns;
          rtsi_result = calculate_rating_trend_strength_index RATING_SCORE_MAP linregress
                          (clock k) (Some stock_ratings);
          rtsi_result = rtsi_result
                          (''stock_code'' \<mapsto> PStr stock_code,
                           ''stock_name'' \<mapsto> cell_val stock_name,
                           ''industry'' \<mapsto> cell_val (row_get r (LStr col_industry)
                                                          (CStr unclassified)));
          results = dict_set results stock_code rtsi_result
      in case progress_due (idx r) of
           Inl e \<Rightarrow> Inl e
         | Inr due \<Rightarrow> batch_rows RATING_SCORE_MAP linregress clock date_columns (Suc k) rs
                        results)"

text \<open>
  \<open>batch_elapsed\<close> is \<open>datetime.now() - batch_start\<close> in microseconds after the loop;
  the last line divides \<open>len(results)\<close> by it as seconds, which raises
  ZeroDivisionError when the two readings of the clock coincide.
\<close>

definition batch_calculate_rtsi ::
  "rating_map_t \<Rightarrow> linregress_t \<Rightarrow> (nat \<Rightarrow> int) \<Rightarrow> int \<Rightarrow> dataframe option
     \<Rightarrow> py_error + (string \<times> pydict) list" where
  "batch_calculate_rtsi RATING_SCORE_MAP linregress clock batch_elapsed stock_data =
     (case stock_data of
        None \<Rightarrow> Inr []
      | Some df \<Rightarrow>
          if length (rows df) = 0 then Inr []
          else
            (case date_columns_of df of
               Inl e \<Rightarrow> Inl e
             | Inr date_columns \<Rightarrow>
                 if length date_columns = 0 then Inr []
                 else
                   (case batch_rows RATING_SCORE_MAP linregress clock date_columns 0
                           (rows df) [] of
                      Inl e \<Rightarrow> Inl e
                    | Inr results \<Rightarrow>
                        if batch_elapsed = 0 then Inl ZeroDivisionError else Inr results)))"

section \<open>Ranking\<close>

text \<open>\<open>v > 0\<close> on a dictionary value: a NaN compares false, \<open>None\<close> and strings raise.\<close>

fun py_gt_zero :: "pyval \<Rightarrow> py_error + bool" where
  "py_gt_zero (PNum x) = Inr (0 < x)"
| "py_gt_zero PNaN = Inr False"
| "py_gt_zero v = Inl TypeError"

fun is_substring :: "string \<Rightarrow> string \<Rightarrow> bool" where
  "is_substring p [] = (p = [])"
| "is_substring p (c # cs) = (startswith (c # cs) p \<or> is_substring p cs)"

text \<open>\<open>p not in v\<close> for a string \<open>p\<close>: a value that is no string raises.\<close>

fun py_not_in :: "string \<Rightarrow> pyval \<Rightarrow> py_error + bool" where
  "py_not_in p (PStr s) = Inr (\<not> is_substring p s)"
| "py_not_in p v = Inl TypeError"

text \<open>
  The trend filter of one entry: \<open>Inr True\<close> when the \<open>if\<close>/\<open>elif\<close> chain reaches a
  \<open>continue\<close>. As in Python, \<open>and\<close> evaluates its right operand only when the left one
  holds.
\<close>

definition trend_skips :: "string \<Rightarrow> pydict \<Rightarrow> py_error + bool" where
  "trend_skips trend_filter result =
     (let trend = dict_get result ''trend'' (PStr []) in
      case (if trend_filter = ''up'' then py_not_in ''up'' trend else Inr False) of
        Inl e \<Rightarrow> Inl e
      | Inr c1 \<Rightarrow>
          if c1 then Inr True
          else
            (case (if trend_filter = ''down'' then py_not_in ''down'' trend else Inr False) of
               Inl e \<Rightarrow> Inl e
             | Inr c2 \<Rightarrow>
                 if c2 then Inr True
                 else if trend_filter = ''strong_up'' \<and> trend \<noteq> PStr ''strong_up'' then Inr True
                 else if trend_filter = ''strong_down'' \<and> trend \<noteq> PStr ''strong_down'' then Inr True
                 else Inr False))"

type_synonym valid_result = "string \<times> pyval \<times> pyval \<times> pyval \<times> pyval \<times> pyval"

text \<open>The first loop of \<open>get_rtsi_ranking\<close>; a filter that is \<open>None\<close> or \<open>''\<close> is falsy.\<close>

fun valid_results_of :: "string option \<Rightarrow> (string \<times> pydict) list \<Rightarrow> py_error + valid_result list" where
  "valid_results_of trend_filter [] = Inr []"
| "valid_results_of trend_filter ((stock_code, result) # rest) =
     (case py_gt_zero (dict_get result ''rtsi'' (PNum 0)) of
        Inl e \<Rightarrow> Inl e
      | Inr positive \<Rightarrow>
          if \<not> positive then valid_results_of trend_filter rest
          else
            (case (case trend_filter of
                     None \<Rightarrow> Inr False
                   | Some f \<Rightarrow> if f = [] then Inr False else trend_skips f result) of
               Inl e \<Rightarrow> Inl e
             | Inr skip \<Rightarrow>
                 if skip then valid_results_of trend_filter rest
                 else
                   (case valid_results_of trend_filter rest of
                      Inl e \<Rightarrow> Inl e
                    | Inr vs \<Rightarrow>
                        Inr ((stock_code,
                              dict_get result ''stock_name'' (PStr unknown_name),
                              dict_get result ''rtsi'' (PNum 0),
                              dict_get result ''trend'' (PStr ''unknown''),
                              dict_get result ''confidence'' (PNum 0),
                              dict_get result ''recent_score'' (PNum 0)) # vs))))"

text \<open>The number held by a value; every \<open>rtsi\<close> kept by the first loop is a number.\<close>

fun num_of :: "pyval \<Rightarrow> real" where
  "num_of (PNum x) = x"
| "num_of v = 0"

definition rtsi_key :: "valid_result \<Rightarrow> real" where
  "rtsi_key x = num_of (fst (snd (snd x)))"

text \<open>
  \<open>xs.sort(key=f, reverse=True)\<close>: a stable sort into descending order of the key
  (elements with equal keys keep their order), which is the stable ascending sort by the
  negated key.
\<close>

definition sort_reverse :: "('a \<Rightarrow> real) \<Rightarrow> 'a list \<Rightarrow> 'a list" where
  "sort_reverse f xs = sort_key (\<lambda>x. - f x) xs"

text \<open>\<open>xs[:n]\<close>: a negative \<open>n\<close> counts from the end.\<close>

definition slice_to :: "'a list \<Rightarrow> int \<Rightarrow> 'a list" where
  "slice_to xs n = (if n < 0 then take (nat (int (length xs) + n)) xs else take (nat n) xs)"

definition get_rtsi_ranking ::
  "(string \<times> pydict) list \<Rightarrow> int \<Rightarrow> string option
     \<Rightarrow> py_error + (string \<times> pyval \<times> pyval \<times> pyval) list" where
  "get_rtsi_ranking rtsi_results top_n trend_filter =
     (if rtsi_results = [] then Inr []
      else
        (case valid_results_of trend_filter rtsi_results of
           Inl e \<Rightarrow> Inl e
         | Inr valid_results \<Rightarrow>
             Inr (map (\<lambda>(code, name, rtsi, trend, conf, score). (code, name, rtsi, trend))
                    (slice_to (sort_reverse rtsi_key valid_results) top_n))))"

section \<open>The calculator class\<close>

record RTSICalculator =
  rating_map :: rating_map_t
  min_data_points :: int
  calculation_count :: nat

text \<open>\<open>__init__\<close>: \<open>rating_map or RATING_SCORE_MAP\<close> takes the module's table when the
  argument is \<open>None\<close> or an empty dictionary.\<close>

definition RTSICalculator_init :: "rating_map_t \<Rightarrow> rating_map_t option \<Rightarrow> int \<Rightarrow> RTSICalculator" where
  "RTSICalculator_init RATING_SCORE_MAP rating_map_arg min_data_points_arg =
     \<lparr>rating_map = (case rating_map_arg of
                      None \<Rightarrow> RATING_SCORE_MAP
                    | Some m \<Rightarrow> if m = [] then RATING_SCORE_MAP else m),
      min_data_points = min_data_points_arg,
      calculation_count = 0\<rparr>"

text \<open>\<open>calculate\<close> returns the updated object and the result.\<close>

definition RTSICalculator_calculate ::
  "rating_map_t \<Rightarrow> linregress_t \<Rightarrow> int \<Rightarrow> RTSICalculator \<Rightarrow> cell list option
     \<Rightarrow> RTSICalculator \<times> pydict" where
  "RTSICalculator_calculate RATING_SCORE_MAP linregress elapsed self stock_ratings =
     (self\<lparr>calculation_count := calculation_count self + 1\<rparr>,
      calculate_rating_trend_strength_index RATING_SCORE_MAP linregress elapsed stock_ratings)"

section \<open>Example inputs\<close>

text \<open>
  The rating sequence of the module's self-test, whose scores are 1 to 7; a sequence of
  six cells of which three are rated; a regression routine answering with the perfect fit
  of the first (slope 1, correlation 1, p-value 0), and one that raises.
\<close>

definition example_ratings :: "cell list" where
  "example_ratings = map CStr
     [[CHR 0xE4, CHR 0xB8, CHR 0xAD, CHR 0xE7, CHR 0xA9, CHR 0xBA],
      [CHR 0xE5, CHR 0xB0, CHR 0x8F, CHR 0xE7, CHR 0xA9, CHR 0xBA],
      [CHR 0xE5, CHR 0xBE, CHR 0xAE, CHR 0xE7, CHR 0xA9, CHR 0xBA],
      [CHR 0xE5, CHR 0xBE, CHR 0xAE, CHR 0xE5, CHR 0xA4, CHR 0x9A],
      [CHR 0xE5, CHR 0xB0, CHR 0x8F, CHR 0xE5, CHR 0xA4, CHR 0x9A],
      [CHR 0xE4, CHR 0xB8, CHR 0xAD, CHR 0xE5, CHR 0xA4, CHR 0x9A],
      [CHR 0xE5, CHR 0xA4, CHR 0xA7, CHR 0xE5, CHR 0xA4, CHR 0x9A]]"

definition short_ratings :: "cell list" where
  "short_ratings = [CStr [CHR 0xE5, CHR 0xA4, CHR 0xA7, CHR 0xE5, CHR 0xA4, CHR 0x9A],
                    CStr ''-'', CNaN,
                    CStr [CHR 0xE5, CHR 0xA4, CHR 0xA7, CHR 0xE7, CHR 0xA9, CHR 0xBA],
                    CStr ''hold'',
                    CStr [CHR 0xE5, CHR 0xBE, CHR 0xAE, CHR 0xE5, CHR 0xA4, CHR 0x9A]]"

definition perfect_fit :: linregress_t where
  "perfect_fit x y = Inr (1, 1, 1, 0, 0)"

definition failing_fit :: linregress_t where
  "failing_fit x y = Inl ''Cannot calculate a linear regression''"

definition four_ratings :: "cell list" where
  "four_ratings = take 4 example_ratings"

definition custom_rating_map :: rating_map_t where
  "custom_rating_map = [(''sell'', Some 0), (''hold'', Some 1), (''buy'', Some 2)]"

definition custom_ratings :: "cell list" where
  "custom_ratings = map CStr [''sell'', ''hold'', ''hold'', ''buy'', ''buy'', ''buy'']"

text \<open>
  The reading of a time-key column that a four-digit year prefix gives: the label has at
  least four characters and its first four are decimal digits. It is compared with the
  selection the source makes.
\<close>

definition begins_with_year :: "string \<Rightarrow> bool" where
  "begins_with_year s = (4 \<le> length s \<and> list_all (\<lambda>c. c \<in> set ''0123456789'') (take 4 s))"

text \<open>
  The ranking in the words of the specification. An entry is valid when its \<open>rtsi\<close> is
  greater than 0; its ranking tuple is (identifier, name, rtsi, trend); the ranking is the
  list of the valid entries' tuples, in dictionary order, sorted by \<open>rtsi\<close>.
\<close>

definition rtsi_of :: "pydict \<Rightarrow> pyval" where
  "rtsi_of result = dict_get result ''rtsi'' (PNum 0)"

definition rtsi_positive :: "string \<times> pydict \<Rightarrow> bool" where
  "rtsi_positive entry = (0 < num_of (rtsi_of (snd entry)))"

definition ranking_tuple :: "string \<times> pydict \<Rightarrow> string \<times> pyval \<times> pyval \<times> pyval" where
  "ranking_tuple entry =
     (fst entry,
      dict_get (snd entry) ''stock_name'' (PStr unknown_name),
      rtsi_of (snd entry),
      dict_get (snd entry) ''trend'' (PStr ''unknown''))"

definition tuple_rtsi :: "string \<times> pyval \<times> pyval \<times> pyval \<Rightarrow> real" where
  "tuple_rtsi t = num_of (fst (snd (snd t)))"

definition valid_tuples :: "(string \<times> pydict) list \<Rightarrow> (string \<times> pyval \<times> pyval \<times> pyval) list" where
  "valid_tuples rtsi_results = map ranking_tuple (filter rtsi_positive rtsi_results)"

text \<open>
  A result whose \<open>rtsi\<close> can be compared with 0: absent, a number or a NaN, as in every
  record that the scoring functions build.
\<close>

definition rtsi_comparable :: "pydict \<Rightarrow> bool" where
  "rtsi_comparable result =
     (case rtsi_of result of PNone \<Rightarrow> False | PStr s \<Rightarrow> False | PNaN \<Rightarrow> True | PNum x \<Rightarrow> True)"

text \<open>
  A batch result set of four stocks: two with \<open>rtsi\<close> 60, one with 80, one placeholder.
\<close>

definition ranking_example :: "(string \<times> pydict) list" where
  "ranking_example =
     [(''000001'', [''rtsi'' \<mapsto> PNum 60, ''trend'' \<mapsto> PStr ''weak_bull'',
                    ''stock_name'' \<mapsto> PStr ''A'']),
      (''000002'', [''rtsi'' \<mapsto> PNum 0, ''trend'' \<mapsto> PStr ''insufficient_data'',
                    ''stock_name'' \<mapsto> PStr ''B'']),
      (''000003'', [''rtsi'' \<mapsto> PNum 80, ''trend'' \<mapsto> PStr ''strong_bull'',
                    ''stock_name'' \<mapsto> PStr ''C'']),
      (''000004'', [''rtsi'' \<mapsto> PNum 60, ''trend'' \<mapsto> PStr ''weak_bear'',
                    ''stock_name'' \<mapsto> PStr ''D''])]"

definition valid_result_of :: "string \<times> pydict \<Rightarrow> valid_result" where
  "valid_result_of entry =
     (fst entry,
      dict_get (snd entry) ''stock_name'' (PStr unknown_name),
      dict_get (snd entry) ''rtsi'' (PNum 0),
      dict_get (snd entry) ''trend'' (PStr ''unknown''),
      dict_get (snd entry) ''confidence'' (PNum 0),
      dict_get (snd entry) ''recent_score'' (PNum 0))"

definition first_four :: "valid_result \<Rightarrow> string \<times> pyval \<times> pyval \<times> pyval" where
  "first_four = (\<lambda>(code, name, rtsi, trend, conf, score). (code, name, rtsi, trend))"

text \<open>
  The record of one row in the words of the specification: the score of the row's ratings
  taken in the order of the given date columns, with the stock code, the stock name and the
  industry attached.
\<close>

definition row_record :: "rating_map_t \<Rightarrow> linregress_t \<Rightarrow> int \<Rightarrow> label list \<Rightarrow> row \<Rightarrow> pydict" where
  "row_record M lr elapsed date_columns r =
     (calculate_rating_trend_strength_index M lr elapsed
        (Some (map (\<lambda>c. row_get r c CNaN) date_columns)))
       (''stock_code'' \<mapsto> PStr (stock_code_of r),
        ''stock_name'' \<mapsto> cell_val (row_get r (LStr col_stock_name) (CStr unknown_stock)),
        ''industry'' \<mapsto> cell_val (row_get r (LStr col_industry) (CStr unclassified)))"

text \<open>
  Ascending order of labels: integers by value, strings lexicographically.
\<close>

fun label_le :: "label \<Rightarrow> label \<Rightarrow> bool" where
  "label_le (LInt a) (LInt b) = (a \<le> b)"
| "label_le (LStr a) (LStr b) = (a \<le> b)"
| "label_le a b = False"

text \<open>
  Example tables: three stocks over five dates, the columns out of order, the second stock
  with too few ratings and the third with an integer code; a table in which two rows carry
  the same stock code; a table whose date labels are integers; a table whose index labels
  are strings; a table with an integer and a string date label.
\<close>

definition example_dates :: "label list" where
  "example_dates = map LStr [''20250601'', ''20250602'', ''20250603'', ''20250604'', ''20250605'']"

definition example_table :: dataframe where
  "example_table =
     \<lparr>columns = [LStr col_stock_code, LStr ''20250603'', LStr ''20250601'', LStr col_stock_name,
                 LStr ''20250605'', LStr ''20250602'', LStr ''20250604''],
      rows = [\<lparr>idx = LInt 0, cells = map_of ((LStr col_stock_code, CStr ''000001'')
                                 # (LStr col_stock_name, CStr ''A'')
                                 # zip example_dates (take 5 example_ratings))\<rparr>,
              \<lparr>idx = LInt 1, cells = map_of ((LStr col_stock_code, CStr ''000002'')
                                 # (LStr col_stock_name, CStr ''B'')
                                 # zip example_dates (take 5 short_ratings))\<rparr>,
              \<lparr>idx = LInt 2, cells = map_of ((LStr col_stock_code, CInt 600000)
                                 # (LStr col_stock_name, CStr ''C'')
                                 # zip example_dates (rev (take 5 example_ratings)))\<rparr>]\<rparr>"

definition duplicate_table :: dataframe where
  "duplicate_table =
     \<lparr>columns = LStr col_stock_code # example_dates,
      rows = [\<lparr>idx = LInt 0, cells = map_of ((LStr col_stock_code, CStr ''000001'')
                                 # zip example_dates (take 5 example_ratings))\<rparr>,
              \<lparr>idx = LInt 1, cells = map_of ((LStr col_stock_code, CStr ''000001'')
                                 # zip example_dates (rev (take 5 example_ratings)))\<rparr>]\<rparr>"

definition integer_dates_table :: dataframe where
  "integer_dates_table =
     \<lparr>columns = [LStr col_stock_code, LInt 20250602, LInt 2026, LInt 20250601],
      rows = [\<lparr>idx = LInt 0, cells = map_of [(LStr col_stock_code, CStr ''000001''),
                                          (LInt 20250602, CStr ''-''), (LInt 2026, CStr ''-''),
                                          (LInt 20250601, CStr ''-'')]\<rparr>]\<rparr>"

definition string_index_table :: dataframe where
  "string_index_table =
     \<lparr>columns = [LStr ''20250601''],
      rows = [\<lparr>idx = LStr ''000001'', cells = map_of [(LStr ''20250601'', CStr ''-'')]\<rparr>]\<rparr>"

definition mixed_dates_table :: dataframe where
  "mixed_dates_table =
     \<lparr>columns = [LStr ''20250601'', LInt 20250602],
      rows = [\<lparr>idx = LInt 0, cells = map_of [(LStr ''20250601'', CStr ''-''),
                                          (LInt 20250602, CStr ''-'')]\<rparr>]\<rparr>"

text \<open>
  A table with a column of the year 1999 and a column \<open>'202x'\<close>, and a table with no
  date column.
\<close>

definition year_table :: dataframe where
  "year_table =
     \<lparr>columns = [LStr col_stock_code, LStr ''19991231'', LStr ''202x''],
      rows = [\<lparr>idx = LInt 0, cells = map_of [(LStr col_stock_code, CStr ''000001''),
                                          (LStr ''19991231'', CStr ''-''),
                                          (LStr ''202x'', CStr ''-'')]\<rparr>]\<rparr>"

definition undated_table :: dataframe where
  "undated_table =
     \<lparr>columns = [LStr col_stock_code, LStr col_stock_name],
      rows = [\<lparr>idx = LInt 0, cells = map_of [(LStr col_stock_code, CStr ''000001''),
                                          (LStr col_stock_name, CStr ''A'')]\<rparr>]\<rparr>"

section \<open>Classification\<close>

text \<open>C3: \<open>classify_rtsi_by_value\<close> is a total function of a real argument with the seven
  closed-open brackets of the source, in descending order; values below 0 fall into
  \<open>strong_bear\<close> and values above 100 into \<open>strong_bull\<close>.\<close>

theorem classify_rtsi_by_value_brackets:
  "(75 \<le> v \<longrightarrow> classify_rtsi_by_value v = ''strong_bull'') \<and>
   (60 \<le> v \<and> v < 75 \<longrightarrow> classify_rtsi_by_value v = ''moderate_bull'') \<and>
   (50 \<le> v \<and> v < 60 \<longrightarrow> classify_rtsi_by_value v = ''weak_bull'') \<and>
   (40 \<le> v \<and> v < 50 \<longrightarrow> classify_rtsi_by_value v = ''neutral'') \<and>
   (30 \<le> v \<and> v < 40 \<longrightarrow> classify_rtsi_by_value v = ''weak_bear'') \<and>
   (20 \<le> v \<and> v < 30 \<longrightarrow> classify_rtsi_by_value v = ''moderate_bear'') \<and>
   (v < 20 \<longrightarrow> classify_rtsi_by_value v = ''strong_bear'') \<and>
   (v < 0 \<longrightarrow> classify_rtsi_by_value v = ''strong_bear'') \<and>
   (100 < v \<longrightarrow> classify_rtsi_by_value v = ''strong_bull'')"
  by (simp add: classify_rtsi_by_value_def)

theorem classify_rtsi_by_value_brackets_witness:
  "classify_rtsi_by_value 75 = ''strong_bull'' \<and>
   classify_rtsi_by_value 60 = ''moderate_bull'' \<and>
   classify_rtsi_by_value 59.99 = ''weak_bull'' \<and>
   classify_rtsi_by_value 40 = ''neutral'' \<and>
   classify_rtsi_by_value 30 = ''weak_bear'' \<and>
   classify_rtsi_by_value 20 = ''moderate_bear'' \<and>
   classify_rtsi_by_value 19.99 = ''strong_bear'' \<and>
   classify_rtsi_by_value (- 5) = ''strong_bear'' \<and>
   classify_rtsi_by_value 120 = ''strong_bull''"
  using classify_rtsi_by_value_brackets [of 75] classify_rtsi_by_value_brackets [of 60]
    classify_rtsi_by_value_brackets [of "59.99"] classify_rtsi_by_value_brackets [of 40]
    classify_rtsi_by_value_brackets [of 30] classify_rtsi_by_value_brackets [of 20]
    classify_rtsi_by_value_brackets [of "19.99"] classify_rtsi_by_value_brackets [of "- 5"]
    classify_rtsi_by_value_brackets [of 120]
  by simp

section \<open>Formatting the elapsed time\<close>

lemma binary_exponent_eq:
  assumes "0 < a" and "e \<le> e'" and "2 ^ 52 * 10 ^ 6 \<le> a * 2 ^ e'"
    and "e < e' \<longrightarrow> a * 2 ^ (e' - 1) < 2 ^ 52 * 10 ^ 6"
  shows "binary_exponent a e = e'"
  using assms
proof (induction "e' - e" arbitrary: e)
  case 0
  then have "e = e'" by simp
  with 0 show ?case by (simp add: binary_exponent.simps)
next
  case (Suc n)
  then have lt: "e < e'" by simp
  then have "e \<le> e' - 1" by simp
  then have "(2::nat) ^ e \<le> 2 ^ (e' - 1)" by (rule power_increasing) simp
  then have le: "a * 2 ^ e \<le> a * 2 ^ (e' - 1)" by (rule mult_le_mono2)
  have "a * 2 ^ (e' - 1) < 2 ^ 52 * 10 ^ 6" using Suc.prems(4) lt by blast
  with le have small: "a * 2 ^ e < 2 ^ 52 * 10 ^ 6" by (rule le_less_trans)
  have "binary_exponent a (Suc e) = e'"
  proof (rule Suc.hyps(1))
    show "n = e' - Suc e" using Suc.hyps(2) by simp
    show "0 < a" by (rule Suc.prems(1))
    show "Suc e \<le> e'" using lt by simp
    show "2 ^ 52 * 10 ^ 6 \<le> a * 2 ^ e'" by (rule Suc.prems(3))
    show "Suc e < e' \<longrightarrow> a * 2 ^ (e' - 1) < 2 ^ 52 * 10 ^ 6" using Suc.prems(4) lt by simp
  qed
  then show ?case
    using small Suc.prems(1) by (subst binary_exponent.simps) simp
qed

lemma format_seconds_eval:
  assumes "0 \<le> us"
    and "binary_exponent (nat us) 0 = e"
    and "round_div (nat us * 2 ^ e) (10 ^ 6) = m"
    and "round_div (m * 1000) (2 ^ e) = ms"
  shows "format_seconds us = digits (ms div 1000) @ ''.''
           @ [digit_char (ms mod 1000 div 100), digit_char (ms mod 100 div 10), digit_char (ms mod 10)]
           @ ''s''"
proof -
  have a: "nat \<bar>us\<bar> = nat us" using assms(1) by simp
  have n: "\<not> us < 0" using assms(1) by simp
  show ?thesis
    unfolding format_seconds_def Let_def a assms(2) assms(3) assms(4)
    using n by simp
qed

lemma format_seconds_1ms: "format_seconds 1000 = ''0.001s''"
proof -
  have e: "binary_exponent (nat 1000) 0 = 62"
    by (rule binary_exponent_eq) simp_all
  have m: "round_div (nat 1000 * 2 ^ 62) (10 ^ 6) = 4611686018427388"
    by (simp add: round_div_def)
  have ms: "round_div (4611686018427388 * 1000) (2 ^ 62) = 1"
    by (simp add: round_div_def)
  have "format_seconds 1000 = digits (1 div 1000) @ ''.''
           @ [digit_char (1 mod 1000 div 100), digit_char (1 mod 100 div 10), digit_char (1 mod 10)]
           @ ''s''"
    by (rule format_seconds_eval [OF _ e m ms]) simp
  then show ?thesis
    by (simp add: digits.simps digit_char_def)
qed

lemma format_seconds_2ms: "format_seconds 2000 = ''0.002s''"
proof -
  have e: "binary_exponent (nat 2000) 0 = 61"
    by (rule binary_exponent_eq) simp_all
  have m: "round_div (nat 2000 * 2 ^ 61) (10 ^ 6) = 4611686018427388"
    by (simp add: round_div_def)
  have ms: "round_div (4611686018427388 * 1000) (2 ^ 61) = 2"
    by (simp add: round_div_def)
  have "format_seconds 2000 = digits (2 div 1000) @ ''.''
           @ [digit_char (2 mod 1000 div 100), digit_char (2 mod 100 div 10), digit_char (2 mod 10)]
           @ ''s''"
    by (rule format_seconds_eval [OF _ e m ms]) simp
  then show ?thesis
    by (simp add: digits.simps digit_char_def)
qed

text \<open>Half a millisecond is printed as the float decides: 500 and 2500 microseconds lie
  just above the tie as floats and are rounded up.\<close>

lemma format_seconds_half_ms: "format_seconds 500 = ''0.001s''"
proof -
  have e: "binary_exponent (nat 500) 0 = 63"
    by (rule binary_exponent_eq) simp_all
  have m: "round_div (nat 500 * 2 ^ 63) (10 ^ 6) = 4611686018427388"
    by (simp add: round_div_def)
  have ms: "round_div (4611686018427388 * 1000) (2 ^ 63) = 1"
    by (simp add: round_div_def)
  have "format_seconds 500 = digits (1 div 1000) @ ''.''
           @ [digit_char (1 mod 1000 div 100), digit_char (1 mod 100 div 10), digit_char (1 mod 10)]
           @ ''s''"
    by (rule format_seconds_eval [OF _ e m ms]) simp
  then show ?thesis
    by (simp add: digits.simps digit_char_def)
qed

lemma format_seconds_two_and_a_half_ms: "format_seconds 2500 = ''0.003s''"
proof -
  have e: "binary_exponent (nat 2500) 0 = 61"
    by (rule binary_exponent_eq) simp_all
  have m: "round_div (nat 2500 * 2 ^ 61) (10 ^ 6) = 5764607523034235"
    by (simp add: round_div_def)
  have ms: "round_div (5764607523034235 * 1000) (2 ^ 61) = 3"
    by (simp add: round_div_def)
  have "format_seconds 2500 = digits (3 div 1000) @ ''.''
           @ [digit_char (3 mod 1000 div 100), digit_char (3 mod 100 div 10), digit_char (3 mod 10)]
           @ ''s''"
    by (rule format_seconds_eval [OF _ e m ms]) simp
  then show ?thesis
    by (simp add: digits.simps digit_char_def)
qed

section \<open>Scoring one sequence\<close>

lemma example_scores: "map_dropna default_rating_score_map example_ratings = [1,2,3,4,5,6,7]"
  by (simp add: example_ratings_def default_rating_score_map_def)

lemma short_scores: "map_dropna default_rating_score_map short_ratings = [7, 0, 4]"
  by (simp add: short_ratings_def default_rating_score_map_def)

lemma length_map_dropna: "length (map_dropna m cs) \<le> length cs"
  by (induction cs) (auto split: option.splits)

text \<open>C1: with at least five valid points and a regression that returns, the \<open>rtsi\<close> field
  is \<open>round(100 * (0.4 * consistency + 0.3 * significance + 0.3 * amplitude), 2)\<close>, where
  consistency is the square of \<open>r_value\<close>, significance is \<open>max(0, 1 - p_value)\<close> below
  the threshold 0.05 and exactly 0 from 0.05 on, and amplitude is
  \<open>min(1.0, |slope| * n / 7)\<close> for \<open>n\<close> valid points.\<close>

theorem rtsi_formula:
  assumes "5 \<le> length (map_dropna M ratings)"
    and "linregress [0..<length (map_dropna M ratings)] (map_dropna M ratings)
           = Inr (slope, intercept, r_value, p_value, std_err)"
  shows "calculate_rating_trend_strength_index M linregress elapsed (Some ratings) ''rtsi''
         = Some (PNum (py_round
             (100 * (0.4 * r_value ^ 2
                     + 0.3 * (if p_value < 0.05 then max 0 (1 - p_value) else 0)
                     + 0.3 * min 1.0 (\<bar>slope\<bar> * of_nat (length (map_dropna M ratings)) / 7))) 2))"
proof -
  have ne: "length ratings \<noteq> 0"
    using assms(1) length_map_dropna [of M ratings] by linarith
  have comm: "min (\<bar>slope\<bar> * of_nat (length (map_dropna M ratings)) / 7) 1
              = min 1 (\<bar>slope\<bar> * of_nat (length (map_dropna M ratings)) / 7)"
    by (rule min.commute)
  show ?thesis
    using assms ne
    by (simp add: calculate_rating_trend_strength_index_def Let_def comm algebra_simps)
qed

theorem rtsi_formula_witness:
  "calculate_rating_trend_strength_index default_rating_score_map perfect_fit 1000
     (Some example_ratings) ''rtsi'' = Some (PNum 100)"
proof -
  have a: "5 \<le> length (map_dropna default_rating_score_map example_ratings)"
    by (simp add: example_scores)
  have b: "perfect_fit [0..<length (map_dropna default_rating_score_map example_ratings)]
             (map_dropna default_rating_score_map example_ratings) = Inr (1, 1, 1, 0, 0)"
    by (simp add: perfect_fit_def)
  show ?thesis
    using rtsi_formula [where M = default_rating_score_map and ratings = example_ratings
        and linregress = perfect_fit and slope = 1 and intercept = 1 and r_value = 1
        and p_value = 0 and std_err = 0 and elapsed = 1000, OF a b]
    by (simp add: example_scores py_round_def round_half_even_def)
qed

text \<open>C2: a sequence that is \<open>None\<close>, empty, or has fewer than five valid points gives
  exactly the insufficient-data record, \<open>data_points\<close> being the number of valid points
  (0 for \<open>None\<close> and for the empty sequence).\<close>

theorem insufficient_data_record:
  assumes "case stock_ratings of None \<Rightarrow> True
           | Some ratings \<Rightarrow> length (map_dropna M ratings) < 5"
  shows "calculate_rating_trend_strength_index M linregress elapsed stock_ratings =
           [''rtsi'' \<mapsto> PNum 0,
            ''trend'' \<mapsto> PStr ''insufficient_data'',
            ''confidence'' \<mapsto> PNum 0,
            ''slope'' \<mapsto> PNum 0,
            ''r_squared'' \<mapsto> PNum 0,
            ''recent_score'' \<mapsto> PNone,
            ''score_change_5d'' \<mapsto> PNone,
            ''data_points'' \<mapsto> PNum (of_nat (case stock_ratings of None \<Rightarrow> 0
                                   | Some ratings \<Rightarrow> length (map_dropna M ratings))),
            ''calculation_time'' \<mapsto> PStr ''0.001s'']"
proof (cases stock_ratings)
  case None
  then show ?thesis
    by (simp add: calculate_rating_trend_strength_index_def get_insufficient_data_result_def)
next
  case (Some ratings)
  with assms have short: "length (map_dropna M ratings) < 5" by simp
  show ?thesis
  proof (cases "ratings = []")
    case True
    with Some show ?thesis
      by (simp add: calculate_rating_trend_strength_index_def get_insufficient_data_result_def)
  next
    case False
    with Some short show ?thesis
      by (simp add: calculate_rating_trend_strength_index_def get_insufficient_data_result_def)
  qed
qed

theorem insufficient_data_record_witness:
  "calculate_rating_trend_strength_index default_rating_score_map perfect_fit 1000
     (Some short_ratings) =
           [''rtsi'' \<mapsto> PNum 0,
            ''trend'' \<mapsto> PStr ''insufficient_data'',
            ''confidence'' \<mapsto> PNum 0,
            ''slope'' \<mapsto> PNum 0,
            ''r_squared'' \<mapsto> PNum 0,
            ''recent_score'' \<mapsto> PNone,
            ''score_change_5d'' \<mapsto> PNone,
            ''data_points'' \<mapsto> PNum 3,
            ''calculation_time'' \<mapsto> PStr ''0.001s'']"
  using insufficient_data_record [where stock_ratings = "Some short_ratings"
      and M = default_rating_score_map and linregress = perfect_fit and elapsed = 1000]
  by (simp add: short_scores)

text \<open>C4: with at least five valid points, an exception of the regression step is not
  propagated: the result is the record with trend \<open>calculation_error\<close>, \<open>rtsi\<close> 0,
  \<open>confidence\<close> 0, the description of the exception under \<open>error\<close>, and the number of
  valid points under \<open>data_points\<close>.\<close>

theorem calculation_error_record:
  assumes "5 \<le> length (map_dropna M ratings)"
    and "linregress [0..<length (map_dropna M ratings)] (map_dropna M ratings) = Inl e"
  shows "calculate_rating_trend_strength_index M linregress elapsed (Some ratings) =
           [''rtsi'' \<mapsto> PNum 0,
            ''trend'' \<mapsto> PStr ''calculation_error'',
            ''confidence'' \<mapsto> PNum 0,
            ''error'' \<mapsto> PStr e,
            ''data_points'' \<mapsto> PNum (of_nat (length (map_dropna M ratings))),
            ''calculation_time'' \<mapsto> PStr (format_seconds elapsed)]"
proof -
  have ne: "length ratings \<noteq> 0"
    using assms(1) length_map_dropna [of M ratings] by linarith
  show ?thesis
    using assms ne by (simp add: calculate_rating_trend_strength_index_def)
qed

theorem calculation_error_record_witness:
  "calculate_rating_trend_strength_index default_rating_score_map failing_fit 1000
     (Some example_ratings) =
           [''rtsi'' \<mapsto> PNum 0,
            ''trend'' \<mapsto> PStr ''calculation_error'',
            ''confidence'' \<mapsto> PNum 0,
            ''error'' \<mapsto> PStr ''Cannot calculate a linear regression'',
            ''data_points'' \<mapsto> PNum 7,
            ''calculation_time'' \<mapsto> PStr ''0.001s'']"
proof -
  have a: "5 \<le> length (map_dropna default_rating_score_map example_ratings)"
    by (simp add: example_scores)
  have b: "failing_fit [0..<length (map_dropna default_rating_score_map example_ratings)]
             (map_dropna default_rating_score_map example_ratings)
           = Inl ''Cannot calculate a linear regression''"
    by (simp add: failing_fit_def)
  have c: "format_seconds 1000 = ''0.001s''"
    by (rule format_seconds_1ms)
  show ?thesis
    using calculation_error_record [where M = default_rating_score_map
        and ratings = example_ratings and linregress = failing_fit
        and e = "''Cannot calculate a linear regression''" and elapsed = 1000, OF a b]
    by (simp add: example_scores c)
qed

section \<open>Ranges of the scores\<close>

text \<open>Rounding to a number of decimals moves a value by less than one unit of the last
  place, so it never crosses an integer bound.\<close>

lemma round_half_even_range: "\<lfloor>x\<rfloor> \<le> round_half_even x \<and> round_half_even x \<le> \<lceil>x\<rceil>"
proof -
  have "x - of_int \<lfloor>x\<rfloor> > 0 \<Longrightarrow> \<lfloor>x\<rfloor> + 1 \<le> \<lceil>x\<rceil>"
    by linarith
  moreover have "\<lfloor>x\<rfloor> \<le> \<lceil>x\<rceil>" by linarith
  ultimately show ?thesis
    unfolding round_half_even_def Let_def by (simp split: if_splits)
qed

lemma py_round_bounds:
  assumes "of_int a \<le> x" and "x \<le> of_int b"
  shows "of_int a \<le> py_round x nd \<and> py_round x nd \<le> of_int b"
proof -
  let ?p = "(10::real) ^ nd"
  have pos: "0 < ?p" by simp
  have lo: "of_int (a * 10 ^ nd) \<le> x * ?p"
    using assms(1) pos by simp
  have hi: "x * ?p \<le> of_int (b * 10 ^ nd)"
    using assms(2) pos by simp
  have "a * 10 ^ nd \<le> \<lfloor>x * ?p\<rfloor>"
    using lo by (simp only: le_floor_iff)
  then have l: "a * 10 ^ nd \<le> round_half_even (x * ?p)"
    using round_half_even_range [of "x * ?p"] by linarith
  have "\<lceil>x * ?p\<rceil> \<le> b * 10 ^ nd"
    using hi by (simp only: ceiling_le_iff)
  then have u: "round_half_even (x * ?p) \<le> b * 10 ^ nd"
    using round_half_even_range [of "x * ?p"] by linarith
  have "(of_int (a * 10 ^ nd) :: real) \<le> of_int (round_half_even (x * ?p))"
    using l by (simp only: of_int_le_iff)
  then have l': "of_int a * ?p \<le> of_int (round_half_even (x * ?p))"
    by simp
  have "(of_int (round_half_even (x * ?p)) :: real) \<le> of_int (b * 10 ^ nd)"
    using u by (simp only: of_int_le_iff)
  then have u': "of_int (round_half_even (x * ?p)) \<le> of_int b * ?p"
    by simp
  show ?thesis
    using l' u' pos by (simp add: py_round_def pos_le_divide_eq pos_divide_le_eq)
qed

lemma py_round_unit: "0 \<le> x \<Longrightarrow> x \<le> 1 \<Longrightarrow> 0 \<le> py_round x nd \<and> py_round x nd \<le> 1"
  using py_round_bounds [of 0 x 1 nd] by simp

lemma py_round_hundred: "0 \<le> x \<Longrightarrow> x \<le> 100 \<Longrightarrow> 0 \<le> py_round x nd \<and> py_round x nd \<le> 100"
  using py_round_bounds [of 0 x 100 nd] by simp

text \<open>C7: with at least five valid points and a regression that returns a correlation
  coefficient in \<open>[-1, 1]\<close> and a non-negative p-value (what \<open>linregress\<close> computes), the
  result has \<open>rtsi\<close> in \<open>[0, 100]\<close>, \<open>confidence\<close> in \<open>[0, 1]\<close> and \<open>r_squared\<close> in
  \<open>[0, 1]\<close>.\<close>

theorem result_ranges:
  assumes "5 \<le> length (map_dropna M ratings)"
    and "linregress [0..<length (map_dropna M ratings)] (map_dropna M ratings)
           = Inr (slope, intercept, r_value, p_value, std_err)"
    and "- 1 \<le> r_value" and "r_value \<le> 1" and "0 \<le> p_value"
  shows "(case calculate_rating_trend_strength_index M linregress elapsed (Some ratings) ''rtsi''
            of Some (PNum v) \<Rightarrow> 0 \<le> v \<and> v \<le> 100 | _ \<Rightarrow> False) \<and>
         (case calculate_rating_trend_strength_index M linregress elapsed (Some ratings) ''confidence''
            of Some (PNum v) \<Rightarrow> 0 \<le> v \<and> v \<le> 1 | _ \<Rightarrow> False) \<and>
         (case calculate_rating_trend_strength_index M linregress elapsed (Some ratings) ''r_squared''
            of Some (PNum v) \<Rightarrow> 0 \<le> v \<and> v \<le> 1 | _ \<Rightarrow> False)"
proof -
  define n where "n = length (map_dropna M ratings)"
  define consistency where "consistency = r_value ^ 2"
  define significance where "significance = (if p_value < 0.05 then max 0 (1 - p_value) else 0)"
  define amplitude where "amplitude = min (\<bar>slope\<bar> * of_nat n / 7) 1"
  have ne: "length ratings \<noteq> 0"
    using assms(1) length_map_dropna [of M ratings] by linarith
  have c: "0 \<le> consistency \<and> consistency \<le> 1"
    using assms(3,4) by (simp add: consistency_def abs_square_le_1 abs_le_iff)
  have s: "0 \<le> significance \<and> significance \<le> 1"
    using assms(5) by (simp add: significance_def)
  have a: "0 \<le> amplitude \<and> amplitude \<le> 1"
    by (simp add: amplitude_def)
  have r: "0 \<le> (consistency * 0.4 + significance * 0.3 + amplitude * 0.3) * 100
           \<and> (consistency * 0.4 + significance * 0.3 + amplitude * 0.3) * 100 \<le> 100"
    using c s a by simp
  have fields:
    "calculate_rating_trend_strength_index M linregress elapsed (Some ratings) ''rtsi''
       = Some (PNum (py_round ((consistency * 0.4 + significance * 0.3 + amplitude * 0.3) * 100) 2))"
    "calculate_rating_trend_strength_index M linregress elapsed (Some ratings) ''confidence''
       = Some (PNum (py_round significance 3))"
    "calculate_rating_trend_strength_index M linregress elapsed (Some ratings) ''r_squared''
       = Some (PNum (py_round consistency 3))"
    using assms(1,2) ne
    by (simp_all add: calculate_rating_trend_strength_index_def Let_def n_def consistency_def
        significance_def amplitude_def)
  show ?thesis
    using py_round_hundred [OF conjunct1 [OF r] conjunct2 [OF r], of 2]
      py_round_unit [OF conjunct1 [OF s] conjunct2 [OF s], of 3]
      py_round_unit [OF conjunct1 [OF c] conjunct2 [OF c], of 3]
    by (simp add: fields)
qed

theorem result_ranges_witness:
  "(case calculate_rating_trend_strength_index default_rating_score_map perfect_fit 1000
           (Some example_ratings) ''rtsi''
      of Some (PNum v) \<Rightarrow> 0 \<le> v \<and> v \<le> 100 | _ \<Rightarrow> False) \<and>
   (case calculate_rating_trend_strength_index default_rating_score_map perfect_fit 1000
           (Some example_ratings) ''confidence''
      of Some (PNum v) \<Rightarrow> 0 \<le> v \<and> v \<le> 1 | _ \<Rightarrow> False) \<and>
   (case calculate_rating_trend_strength_index default_rating_score_map perfect_fit 1000
           (Some example_ratings) ''r_squared''
      of Some (PNum v) \<Rightarrow> 0 \<le> v \<and> v \<le> 1 | _ \<Rightarrow> False)"
proof -
  have a: "5 \<le> length (map_dropna default_rating_score_map example_ratings)"
    by (simp add: example_scores)
  have b: "perfect_fit [0..<length (map_dropna default_rating_score_map example_ratings)]
             (map_dropna default_rating_score_map example_ratings) = Inr (1, 1, 1, 0, 0)"
    by (simp add: perfect_fit_def)
  show ?thesis
    using result_ranges [where M = default_rating_score_map and ratings = example_ratings
        and linregress = perfect_fit and slope = 1 and intercept = 1 and r_value = 1
        and p_value = 0 and std_err = 0 and elapsed = 1000, OF a b]
    by simp
qed

section \<open>Scoring the same sequence again\<close>

lemma calculation_time_field:
  assumes "5 \<le> length (map_dropna M ratings)"
  shows "calculate_rating_trend_strength_index M linregress elapsed (Some ratings)
           ''calculation_time'' = Some (PStr (format_seconds elapsed))"
proof -
  have ne: "length ratings \<noteq> 0"
    using assms length_map_dropna [of M ratings] by linarith
  show ?thesis
    using assms ne
    by (simp add: calculate_rating_trend_strength_index_def Let_def
        split: sum.splits prod.splits)
qed

text \<open>C10: scoring is a function of the sequence, the rating table, the regression routine
  and the clock. Two calls on the same sequence agree on every field except
  \<open>calculation_time\<close>, which is the formatted elapsed wall-clock time of the call; they
  agree on that field too when the sequence has fewer than five valid points.\<close>

theorem rescoring_differs_in_calculation_time_only:
  "(calculate_rating_trend_strength_index M linregress elapsed1 stock_ratings)
      (''calculation_time'' := None)
   = (calculate_rating_trend_strength_index M linregress elapsed2 stock_ratings)
      (''calculation_time'' := None)"
  by (simp add: calculate_rating_trend_strength_index_def Let_def
      split: option.splits sum.splits prod.splits)

text \<open>Two calls on the self-test sequence, one taking 1 ms and one taking 2 ms, return
  different records.\<close>

theorem rescoring_identical_counterexample:
  "calculate_rating_trend_strength_index default_rating_score_map perfect_fit 1000
     (Some example_ratings)
   \<noteq> calculate_rating_trend_strength_index default_rating_score_map perfect_fit 2000
     (Some example_ratings)"
proof
  assume eq: "calculate_rating_trend_strength_index default_rating_score_map perfect_fit 1000
                (Some example_ratings)
              = calculate_rating_trend_strength_index default_rating_score_map perfect_fit 2000
                (Some example_ratings)"
  have a: "5 \<le> length (map_dropna default_rating_score_map example_ratings)"
    by (simp add: example_scores)
  have "Some (PStr (format_seconds 1000)) = Some (PStr (format_seconds 2000))"
    using fun_cong [OF eq, of "''calculation_time''"]
    by (simp only: calculation_time_field [OF a])
  then show False
    by (simp add: format_seconds_1ms format_seconds_2ms)
qed

section \<open>The configuration of a calculator object\<close>

lemma four_scores: "map_dropna default_rating_score_map four_ratings = [1, 2, 3, 4]"
  by (simp add: four_ratings_def example_ratings_def default_rating_score_map_def)

lemma custom_scores:
  "map_dropna custom_rating_map custom_ratings = [0, 1, 1, 2, 2, 2]"
  "map_dropna default_rating_score_map custom_ratings = []"
  by (simp_all add: custom_ratings_def custom_rating_map_def default_rating_score_map_def)

lemma four_ratings_nonempty: "length four_ratings \<noteq> 0"
  by (simp add: four_ratings_def example_ratings_def)

lemma custom_ratings_nonempty: "length custom_ratings \<noteq> 0"
  by (simp add: custom_ratings_def)

lemma custom_rating_map_nonempty: "custom_rating_map \<noteq> []"
  by (simp add: custom_rating_map_def)

text \<open>C8: the calculator object stores \<open>rating_map\<close> and \<open>min_data_points\<close>, but
  \<open>calculate\<close> calls the module-level function, which reads the module's table and the
  constant 5. A calculator built with \<open>min_data_points = 3\<close> reports insufficient data for
  four valid points, and one built with its own table drops all six symbols of that table.\<close>

theorem calculator_ignores_its_configuration:
  "min_data_points (RTSICalculator_init default_rating_score_map None 3) = 3 \<and>
   length (map_dropna default_rating_score_map four_ratings) = 4 \<and>
   snd (RTSICalculator_calculate default_rating_score_map perfect_fit 1000
          (RTSICalculator_init default_rating_score_map None 3) (Some four_ratings))
     = get_insufficient_data_result 4 \<and>
   rating_map (RTSICalculator_init default_rating_score_map (Some custom_rating_map) 5)
     = custom_rating_map \<and>
   length (map_dropna custom_rating_map custom_ratings) = 6 \<and>
   snd (RTSICalculator_calculate default_rating_score_map perfect_fit 1000
          (RTSICalculator_init default_rating_score_map (Some custom_rating_map) 5)
          (Some custom_ratings))
     = get_insufficient_data_result 0"
  using four_ratings_nonempty custom_ratings_nonempty custom_rating_map_nonempty
  by (simp add: RTSICalculator_init_def RTSICalculator_calculate_def four_scores custom_scores
      calculate_rating_trend_strength_index_def eval_nat_numeral)

section \<open>Ranking by score\<close>

lemma py_gt_zero_comparable:
  "rtsi_comparable d \<Longrightarrow> py_gt_zero (dict_get d ''rtsi'' (PNum 0)) = Inr (rtsi_positive (c, d))"
  by (cases "dict_get d ''rtsi'' (PNum 0)")
    (simp_all add: rtsi_comparable_def rtsi_of_def rtsi_positive_def)

lemma valid_results_of_no_filter:
  assumes "\<forall>(c, d) \<in> set rtsi_results. rtsi_comparable d"
  shows "valid_results_of None rtsi_results
         = Inr (map valid_result_of (filter rtsi_positive rtsi_results))"
  using assms
proof (induction rtsi_results)
  case Nil
  then show ?case by simp
next
  case (Cons p ps)
  obtain c d where p: "p = (c, d)" by (cases p)
  have cmp: "rtsi_comparable d" using Cons.prems p by simp
  have ih: "valid_results_of None ps = Inr (map valid_result_of (filter rtsi_positive ps))"
    using Cons by simp
  show ?case
    by (simp add: p py_gt_zero_comparable [OF cmp, of c] ih valid_result_of_def)
qed

lemma slice_to_nonneg: "0 \<le> n \<Longrightarrow> slice_to xs n = take (nat n) xs"
  by (simp add: slice_to_def)

lemma insort_key_map:
  "map g (insort_key (\<lambda>x. f (g x)) x xs) = insort_key f (g x) (map g xs)"
  by (induction xs) simp_all

lemma sort_key_map:
  "map g (sort_key (\<lambda>x. f (g x)) xs) = sort_key f (map g xs)"
  by (induction xs) (simp_all add: insort_key_map)

lemma sort_reverse_map:
  "map g (sort_reverse (\<lambda>x. f (g x)) xs) = sort_reverse f (map g xs)"
  unfolding sort_reverse_def by (rule sort_key_map)

lemma rtsi_key_first_four: "rtsi_key x = tuple_rtsi (first_four x)"
  by (cases x) (simp add: rtsi_key_def tuple_rtsi_def first_four_def)

lemma first_four_valid_result: "first_four (valid_result_of e) = ranking_tuple e"
  by (simp add: first_four_def valid_result_of_def ranking_tuple_def rtsi_of_def)

lemma sort_reverse_sorted:
  "sorted_wrt (\<lambda>a b. f b \<le> f a) (sort_reverse f xs)"
proof -
  have "sorted (map (\<lambda>x. - f x) (sort_reverse f xs))"
    unfolding sort_reverse_def by (rule sorted_sort_key)
  then show ?thesis
    by (simp add: sorted_map) 
qed

lemma sort_reverse_stable:
  "filter (\<lambda>y. f y = v) (sort_reverse f xs) = filter (\<lambda>y. f y = v) xs"
proof -
  have "filter (\<lambda>y. - f y = - v) (sort_key (\<lambda>x. - f x) xs) = filter (\<lambda>y. - f y = - v) xs"
    by (rule sort_key_stable)
  then show ?thesis by (simp add: sort_reverse_def)
qed

lemma ranking_no_filter:
  assumes "\<forall>(c, d) \<in> set rtsi_results. rtsi_comparable d"
  shows "get_rtsi_ranking rtsi_results top_n None
         = Inr (slice_to (sort_reverse tuple_rtsi (valid_tuples rtsi_results)) top_n)"
proof -
  let ?v = "map valid_result_of (filter rtsi_positive rtsi_results)"
  have key: "rtsi_key = (\<lambda>x. tuple_rtsi (first_four x))"
    by (rule ext) (rule rtsi_key_first_four)
  have m: "map first_four ?v = valid_tuples rtsi_results"
    by (simp add: valid_tuples_def first_four_valid_result)
  have sl: "map first_four (slice_to xs top_n) = slice_to (map first_four xs) top_n" for xs
    by (simp add: slice_to_def take_map)
  have "map first_four (slice_to (sort_reverse rtsi_key ?v) top_n)
        = slice_to (sort_reverse tuple_rtsi (valid_tuples rtsi_results)) top_n"
    by (simp only: sl key sort_reverse_map m)
  then have main: "Inr (map first_four (slice_to (sort_reverse rtsi_key ?v) top_n))
        = (Inr (slice_to (sort_reverse tuple_rtsi (valid_tuples rtsi_results)) top_n)
             :: py_error + (string \<times> pyval \<times> pyval \<times> pyval) list)"
    by simp
  show ?thesis
  proof (cases "rtsi_results = []")
    case True
    then show ?thesis
      by (simp add: get_rtsi_ranking_def valid_tuples_def sort_reverse_def slice_to_def)
  next
    case False
    then show ?thesis
      using main
      by (simp add: get_rtsi_ranking_def valid_results_of_no_filter [OF assms]
          first_four_def)
  qed
qed

lemma valid_tuples_positive: "\<forall>t \<in> set (valid_tuples rtsi_results). 0 < tuple_rtsi t"
  by (auto simp: valid_tuples_def rtsi_positive_def ranking_tuple_def tuple_rtsi_def)

text \<open>C6: for a batch result set (every \<open>rtsi\<close> a number, as the scoring functions store
  it), a limit \<open>top_n\<close> that is a count (0 or more) and no trend filter, the ranking is
  the first \<open>top_n\<close> tuples (identifier, name, rtsi, trend) of the valid entries sorted by
  \<open>rtsi\<close>: every tuple has an \<open>rtsi\<close> greater than 0, the \<open>rtsi\<close> values are
  non-increasing, tuples with equal \<open>rtsi\<close> keep the order of the dictionary, and there
  are \<open>min(top_n, number of valid entries)\<close> tuples, so at most \<open>top_n\<close>.\<close>

theorem ranking_positive_sorted_stable_truncated:
  assumes "\<forall>(c, d) \<in> set rtsi_results. rtsi_comparable d" and "0 \<le> top_n"
  shows "get_rtsi_ranking rtsi_results top_n None
           = Inr (take (nat top_n) (sort_reverse tuple_rtsi (valid_tuples rtsi_results))) \<and>
         (\<forall>t \<in> set (take (nat top_n) (sort_reverse tuple_rtsi (valid_tuples rtsi_results))).
            0 < tuple_rtsi t) \<and>
         sorted_wrt (\<lambda>a b. tuple_rtsi b \<le> tuple_rtsi a)
           (take (nat top_n) (sort_reverse tuple_rtsi (valid_tuples rtsi_results))) \<and>
         length (take (nat top_n) (sort_reverse tuple_rtsi (valid_tuples rtsi_results)))
           = min (nat top_n) (length (filter rtsi_positive rtsi_results)) \<and>
         (\<forall>v. filter (\<lambda>t. tuple_rtsi t = v) (sort_reverse tuple_rtsi (valid_tuples rtsi_results))
              = filter (\<lambda>t. tuple_rtsi t = v) (valid_tuples rtsi_results)) \<and>
         int (length (take (nat top_n) (sort_reverse tuple_rtsi (valid_tuples rtsi_results))))
           \<le> top_n"
proof -
  let ?s = "sort_reverse tuple_rtsi (valid_tuples rtsi_results)"
  have r: "get_rtsi_ranking rtsi_results top_n None = Inr (take (nat top_n) ?s)"
    by (simp only: ranking_no_filter [OF assms(1)] slice_to_nonneg [OF assms(2)])
  have "set (take (nat top_n) ?s) \<subseteq> set (valid_tuples rtsi_results)"
    using set_take_subset [of "nat top_n" ?s] by (simp add: sort_reverse_def)
  then have p: "\<forall>t \<in> set (take (nat top_n) ?s). 0 < tuple_rtsi t"
    using valid_tuples_positive [of rtsi_results] by blast
  have so: "sorted_wrt (\<lambda>a b. tuple_rtsi b \<le> tuple_rtsi a) (take (nat top_n) ?s)"
    by (rule sorted_wrt_take [OF sort_reverse_sorted])
  have l: "length (take (nat top_n) ?s) = min (nat top_n) (length (filter rtsi_positive rtsi_results))"
    by (simp add: sort_reverse_def valid_tuples_def min.commute)
  have st: "\<forall>v. filter (\<lambda>t. tuple_rtsi t = v) ?s
                = filter (\<lambda>t. tuple_rtsi t = v) (valid_tuples rtsi_results)"
    by (simp only: sort_reverse_stable) simp
  have am: "int (length (take (nat top_n) ?s)) \<le> top_n"
    using assms(2) by simp
  show ?thesis
    by (rule conjI [OF r conjI [OF p conjI [OF so conjI [OF l conjI [OF st am]]]]])
qed

lemma ranking_example_comparable: "\<forall>(c, d) \<in> set ranking_example. rtsi_comparable d"
  by (simp add: ranking_example_def rtsi_comparable_def rtsi_of_def dict_get_def)

lemma ranking_example_tuples:
  "valid_tuples ranking_example =
     [(''000001'', PStr ''A'', PNum 60, PStr ''weak_bull''),
      (''000003'', PStr ''C'', PNum 80, PStr ''strong_bull''),
      (''000004'', PStr ''D'', PNum 60, PStr ''weak_bear'')]"
  by (simp add: valid_tuples_def ranking_example_def rtsi_positive_def rtsi_of_def
      dict_get_def ranking_tuple_def)

lemma ranking_example_sorted:
  "sort_reverse tuple_rtsi (valid_tuples ranking_example) =
     [(''000003'', PStr ''C'', PNum 80, PStr ''strong_bull''),
      (''000001'', PStr ''A'', PNum 60, PStr ''weak_bull''),
      (''000004'', PStr ''D'', PNum 60, PStr ''weak_bear'')]"
  by (simp add: ranking_example_tuples sort_reverse_def tuple_rtsi_def)

theorem ranking_positive_sorted_stable_truncated_witness:
  "get_rtsi_ranking ranking_example 2 None
     = Inr [(''000003'', PStr ''C'', PNum 80, PStr ''strong_bull''),
            (''000001'', PStr ''A'', PNum 60, PStr ''weak_bull'')]"
proof -
  have n: "(0::int) \<le> 2" by simp
  show ?thesis
    using ranking_positive_sorted_stable_truncated [OF ranking_example_comparable n]
    by (simp add: ranking_example_sorted)
qed

lemma calculate_rtsi_is_number:
  "\<exists>x. calculate_rating_trend_strength_index M lr elapsed stock_ratings ''rtsi''
         = Some (PNum x)"
  by (simp add: calculate_rating_trend_strength_index_def get_insufficient_data_result_def
      Let_def split: option.splits sum.splits prod.splits)

lemma dict_set_subset: "set (dict_set ps k v) \<subseteq> insert (k, v) (set ps)"
proof (induction ps)
  case Nil
  then show ?case by simp
next
  case (Cons p ps)
  obtain k' v' where p: "p = (k', v')" by (cases p)
  show ?case
    using Cons.IH p by (cases "k' = k") auto
qed

section \<open>Batch scoring\<close>

lemma map_of_dict_set: "map_of (dict_set ps k v) = (map_of ps)(k \<mapsto> v)"
proof (induction ps)
  case Nil
  then show ?case by simp
next
  case (Cons p ps)
  obtain k' v' where p: "p = (k', v')" by (cases p)
  show ?case
    using Cons.IH p by (cases "k' = k") auto
qed

lemma dict_set_keys: "fst ` set (dict_set ps k v) = insert k (fst ` set ps)"
proof (induction ps)
  case Nil
  then show ?case by simp
next
  case (Cons p ps)
  obtain k' v' where p: "p = (k', v')" by (cases p)
  show ?case
    using Cons.IH p by (cases "k' = k") auto
qed

lemma dict_set_distinct: "distinct (map fst ps) \<Longrightarrow> distinct (map fst (dict_set ps k v))"
proof (induction ps)
  case Nil
  then show ?case by simp
next
  case (Cons p ps)
  obtain k' v' where p: "p = (k', v')" by (cases p)
  show ?case
  proof (cases "k' = k")
    case True
    with Cons.prems p show ?thesis by simp
  next
    case False
    have "k' \<notin> fst ` set (dict_set ps k v)"
      using Cons.prems p False by (simp add: dict_set_keys)
    with Cons p False show ?thesis by simp
  qed
qed

lemma batch_rows_step:
  assumes "batch_rows M lr clock dc k (r # rs) res = Inr results"
  shows "is_LInt (idx r) \<and>
         batch_rows M lr clock dc (Suc k) rs
           (dict_set res (stock_code_of r) (row_record M lr (clock k) dc r)) = Inr results"
  using assms
  by (cases "idx r") (simp_all add: Let_def row_record_def row_select_def)

lemma batch_rows_returns:
  assumes "\<forall>r \<in> set rs. is_LInt (idx r)"
  shows "\<exists>results. batch_rows M lr clock dc k rs res = Inr results"
  using assms
proof (induction rs arbitrary: k res)
  case Nil
  then show ?case by simp
next
  case (Cons r rs)
  then obtain i where i: "idx r = LInt i" by (cases "idx r") simp_all
  have "\<forall>r \<in> set rs. is_LInt (idx r)" using Cons.prems by simp
  then show ?case
    using Cons.IH by (simp add: Let_def i)
qed

lemma batch_rows_keys:
  assumes "batch_rows M lr clock dc k rs res = Inr results"
  shows "fst ` set results = fst ` set res \<union> stock_code_of ` set rs"
  using assms
proof (induction rs arbitrary: k res)
  case Nil
  then show ?case by simp
next
  case (Cons r rs)
  have "fst ` set results
        = fst ` set (dict_set res (stock_code_of r) (row_record M lr (clock k) dc r))
          \<union> stock_code_of ` set rs"
    by (rule Cons.IH) (rule batch_rows_step [OF Cons.prems, THEN conjunct2])
  then show ?case by (simp add: dict_set_keys)
qed

lemma batch_rows_distinct:
  assumes "batch_rows M lr clock dc k rs res = Inr results" and "distinct (map fst res)"
  shows "distinct (map fst results)"
  using assms
proof (induction rs arbitrary: k res)
  case Nil
  then show ?case by simp
next
  case (Cons r rs)
  show ?case
    by (rule Cons.IH [OF batch_rows_step [OF Cons.prems(1), THEN conjunct2]
          dict_set_distinct [OF Cons.prems(2)]])
qed

lemma batch_rows_untouched:
  assumes "batch_rows M lr clock dc k rs res = Inr results"
    and "c \<notin> stock_code_of ` set rs"
  shows "map_of results c = map_of res c"
  using assms
proof (induction rs arbitrary: k res)
  case Nil
  then show ?case by simp
next
  case (Cons r rs)
  have c: "c \<notin> stock_code_of ` set rs" and ne: "c \<noteq> stock_code_of r"
    using Cons.prems(2) by auto
  have "map_of results c
        = map_of (dict_set res (stock_code_of r) (row_record M lr (clock k) dc r)) c"
    by (rule Cons.IH [OF batch_rows_step [OF Cons.prems(1), THEN conjunct2] c])
  then show ?case using ne by (simp add: map_of_dict_set)
qed

lemma batch_rows_last_wins:
  assumes "batch_rows M lr clock dc k rs res = Inr results"
    and "i < length rs"
    and "\<forall>j. i < j \<and> j < length rs \<longrightarrow> stock_code_of (rs ! j) \<noteq> stock_code_of (rs ! i)"
  shows "map_of results (stock_code_of (rs ! i)) = Some (row_record M lr (clock (k + i)) dc (rs ! i))"
  using assms
proof (induction rs arbitrary: k res i)
  case Nil
  then show ?case by simp
next
  case (Cons r rs)
  note step = batch_rows_step [OF Cons.prems(1), THEN conjunct2]
  show ?case
  proof (cases i)
    case 0
    have "stock_code_of r \<notin> stock_code_of ` set rs"
    proof
      assume "stock_code_of r \<in> stock_code_of ` set rs"
      then obtain j where j: "j < length rs" "stock_code_of (rs ! j) = stock_code_of r"
        by (auto simp: in_set_conv_nth)
      then show False
        using Cons.prems(3) [rule_format, of "Suc j"] 0 by simp
    qed
    then have "map_of results (stock_code_of r)
               = map_of (dict_set res (stock_code_of r) (row_record M lr (clock k) dc r))
                   (stock_code_of r)"
      by (rule batch_rows_untouched [OF step])
    then show ?thesis using 0 by (simp add: map_of_dict_set)
  next
    case (Suc i')
    have lt: "i' < length rs" using Cons.prems(2) Suc by simp
    have later: "\<forall>j. i' < j \<and> j < length rs
                   \<longrightarrow> stock_code_of (rs ! j) \<noteq> stock_code_of (rs ! i')"
    proof (intro allI impI)
      fix j assume "i' < j \<and> j < length rs"
      then show "stock_code_of (rs ! j) \<noteq> stock_code_of (rs ! i')"
        using Cons.prems(3) [rule_format, of "Suc j"] Suc by simp
    qed
    have "map_of results (stock_code_of (rs ! i'))
          = Some (row_record M lr (clock (Suc k + i')) dc (rs ! i'))"
      by (rule Cons.IH [OF step lt later])
    then show ?thesis using Suc by simp
  qed
qed

lemma sort_labels_result:
  assumes "sort_labels ls = Inr dc"
  shows "mset dc = mset ls \<and> sorted_wrt label_le dc"
proof (cases "list_all is_LInt ls")
  case True
  then have dc: "dc = map LInt (sort (map the_int ls))"
    using assms by (simp add: sort_labels_def)
  have same: "map (\<lambda>l. LInt (the_int l)) ls = ls"
    using True by (intro map_idI) (simp add: list_all_iff)
  have "mset dc = image_mset LInt (image_mset the_int (mset ls))"
    by (simp add: dc)
  also have "\<dots> = mset (map (\<lambda>l. LInt (the_int l)) ls)"
    by (simp add: image_mset.compositionality comp_def)
  finally have m: "mset dc = mset ls" by (simp only: same)
  have "sorted_wrt label_le dc"
    by (simp add: dc sorted_wrt_map)
  with m show ?thesis by simp
next
  case False
  then have str: "list_all is_LStr ls"
    using assms by (simp add: sort_labels_def split: if_splits)
  then have dc: "dc = map LStr (sort (map the_str ls))"
    using assms False by (simp add: sort_labels_def)
  have same: "map (\<lambda>l. LStr (the_str l)) ls = ls"
    using str by (intro map_idI) (simp add: list_all_iff)
  have "mset dc = image_mset LStr (image_mset the_str (mset ls))"
    by (simp add: dc)
  also have "\<dots> = mset (map (\<lambda>l. LStr (the_str l)) ls)"
    by (simp add: image_mset.compositionality comp_def)
  finally have m: "mset dc = mset ls" by (simp only: same)
  have "sorted_wrt label_le dc"
    by (simp add: dc sorted_wrt_map)
  with m show ?thesis by simp
qed

lemma sort_labels_homogeneous:
  assumes "list_all is_LStr ls \<or> list_all is_LInt ls"
  shows "\<exists>dc. sort_labels ls = Inr dc"
  using assms by (auto simp: sort_labels_def)

lemma batch_without_dates:
  assumes "date_columns_of df = Inr []"
  shows "batch_calculate_rtsi M lr clock batch_elapsed (Some df) = Inr []"
  using assms by (simp add: batch_calculate_rtsi_def)

lemma batch_with_dates:
  assumes "date_columns_of df = Inr dc" and "dc \<noteq> []"
    and "batch_rows M lr clock dc 0 (rows df) [] = Inr results"
    and "batch_elapsed \<noteq> 0"
  shows "batch_calculate_rtsi M lr clock batch_elapsed (Some df) = Inr results"
proof (cases "rows df")
  case Nil
  then show ?thesis using assms(3) by (simp add: batch_calculate_rtsi_def)
next
  case (Cons r rs)
  then have "length (rows df) \<noteq> 0" by simp
  then show ?thesis
    using assms by (simp add: batch_calculate_rtsi_def del: batch_rows.simps)
qed

text \<open>C5: for a table with at least one date column (the date labels all strings or all
  integers), integer index labels and a batch time that is not zero, the batch returns a
  dictionary keyed by stock code: it has exactly one record for every stock code occurring
  in the table (also for a row whose scoring failed or lacked data), and the record under a
  code is that of the last row carrying the code: a row that no later row shares its code
  with has its own record stored. The number of records is the number of distinct stock
  codes; it is the number of rows if and only if the rows' codes are pairwise distinct.\<close>

theorem batch_one_record_per_identifier:
  assumes "date_columns_of df = Inr dc" and "dc \<noteq> []"
    and "\<forall>r \<in> set (rows df). is_LInt (idx r)"
    and "batch_elapsed \<noteq> 0"
  shows "case batch_calculate_rtsi M lr clock batch_elapsed (Some df) of
           Inl e \<Rightarrow> False
         | Inr results \<Rightarrow>
             fst ` set results = stock_code_of ` set (rows df) \<and>
             distinct (map fst results) \<and>
             length results = card (stock_code_of ` set (rows df)) \<and>
             (length results = length (rows df) \<longleftrightarrow> distinct (map stock_code_of (rows df))) \<and>
             (\<forall>i < length (rows df).
                (\<forall>j. i < j \<and> j < length (rows df)
                       \<longrightarrow> stock_code_of (rows df ! j) \<noteq> stock_code_of (rows df ! i))
                \<longrightarrow> map_of results (stock_code_of (rows df ! i))
                      = Some (row_record M lr (clock i) dc (rows df ! i)))"
proof -
  obtain results where rs: "batch_rows M lr clock dc 0 (rows df) [] = Inr results"
    using batch_rows_returns [OF assms(3)] by blast
  have out: "batch_calculate_rtsi M lr clock batch_elapsed (Some df) = Inr results"
    by (rule batch_with_dates [OF assms(1) assms(2) rs assms(4)])
  have keys: "fst ` set results = stock_code_of ` set (rows df)"
    using batch_rows_keys [OF rs] by simp
  have dist: "distinct (map fst results)"
    by (rule batch_rows_distinct [OF rs]) simp
  have "length results = length (map fst results)" by simp
  also have "\<dots> = card (set (map fst results))"
    using dist by (simp only: distinct_card)
  also have "\<dots> = card (stock_code_of ` set (rows df))"
    using keys by simp
  finally have len: "length results = card (stock_code_of ` set (rows df))" .
  have "card (set (map stock_code_of (rows df))) = length (map stock_code_of (rows df))
          \<longleftrightarrow> distinct (map stock_code_of (rows df))"
    using card_distinct distinct_card by blast
  then have iff: "length results = length (rows df) \<longleftrightarrow> distinct (map stock_code_of (rows df))"
    using len by simp
  have last: "\<forall>i < length (rows df).
                (\<forall>j. i < j \<and> j < length (rows df)
                       \<longrightarrow> stock_code_of (rows df ! j) \<noteq> stock_code_of (rows df ! i))
                \<longrightarrow> map_of results (stock_code_of (rows df ! i))
                      = Some (row_record M lr (clock i) dc (rows df ! i))"
    using batch_rows_last_wins [OF rs] by simp
  show ?thesis
    unfolding out sum.case
    by (rule conjI [OF keys conjI [OF dist conjI [OF len conjI [OF iff last]]]])
qed

lemma example_table_dates: "date_columns_of example_table = Inr example_dates"
  by (simp add: date_columns_of_def selected_columns_def sort_labels_def example_table_def
      example_dates_def startswith_def col_stock_code_def col_stock_name_def)

lemma example_table_codes:
  "map stock_code_of (rows example_table) = [''000001'', ''000002'', ''600000'']"
  by (simp add: example_table_def stock_code_of_def row_get_def col_stock_code_def
      str_int_def digits.simps digit_char_def)

lemma example_table_index: "\<forall>r \<in> set (rows example_table). is_LInt (idx r)"
  by (simp add: example_table_def)

lemma example_dates_nonempty: "example_dates \<noteq> []"
  by (simp add: example_dates_def)

theorem batch_one_record_per_identifier_witness:
  "case batch_calculate_rtsi default_rating_score_map perfect_fit (\<lambda>k. 1000) 5000
          (Some example_table) of
     Inl e \<Rightarrow> False
   | Inr results \<Rightarrow>
       fst ` set results = {''000001'', ''000002'', ''600000''} \<and>
       length results = 3 \<and>
       map_of results ''000002''
         = Some (row_record default_rating_score_map perfect_fit 1000 example_dates
                   (rows example_table ! 1))"
proof -
  have t: "(5000::int) \<noteq> 0" by simp
  note inst = batch_one_record_per_identifier [OF example_table_dates example_dates_nonempty
      example_table_index t, of default_rating_score_map perfect_fit "\<lambda>k. 1000"]
  have r: "stock_code_of ` set (rows example_table) = {''000001'', ''000002'', ''600000''}"
    using arg_cong [OF example_table_codes, of set] by simp
  have n: "length (rows example_table) = 3"
    by (simp add: example_table_def)
  have d: "distinct (map stock_code_of (rows example_table))"
    by (simp add: example_table_codes)
  have c1: "stock_code_of (rows example_table ! 1) = ''000002''"
    using arg_cong [OF example_table_codes, of "\<lambda>xs. xs ! 1"] n by simp
  have c2: "stock_code_of (rows example_table ! 2) = ''600000''"
    using arg_cong [OF example_table_codes, of "\<lambda>xs. xs ! 2"] n by simp
  have later: "\<forall>j. 1 < j \<and> j < length (rows example_table)
                 \<longrightarrow> stock_code_of (rows example_table ! j)
                      \<noteq> stock_code_of (rows example_table ! 1)"
  proof (intro allI impI)
    fix j assume "1 < j \<and> j < length (rows example_table)"
    then have "j = 2" using n by simp
    then show "stock_code_of (rows example_table ! j) \<noteq> stock_code_of (rows example_table ! 1)"
      using c1 c2 by simp
  qed
  show ?thesis
  proof (cases "batch_calculate_rtsi default_rating_score_map perfect_fit (\<lambda>k. 1000) 5000
                  (Some example_table)")
    case (Inl e)
    then show ?thesis using inst by simp
  next
    case (Inr results)
    have all: "fst ` set results = stock_code_of ` set (rows example_table) \<and>
          distinct (map fst results) \<and>
          length results = card (stock_code_of ` set (rows example_table)) \<and>
          (length results = length (rows example_table)
             \<longleftrightarrow> distinct (map stock_code_of (rows example_table))) \<and>
          (\<forall>i < length (rows example_table).
             (\<forall>j. i < j \<and> j < length (rows example_table)
                    \<longrightarrow> stock_code_of (rows example_table ! j)
                         \<noteq> stock_code_of (rows example_table ! i))
             \<longrightarrow> map_of results (stock_code_of (rows example_table ! i))
                   = Some (row_record default_rating_score_map perfect_fit 1000 example_dates
                             (rows example_table ! i)))"
      by (rule inst [unfolded Inr sum.case])
    have k: "fst ` set results = {''000001'', ''000002'', ''600000''}"
      using all r by simp
    have l: "length results = 3"
      using all d n by simp
    have "1 < length (rows example_table)" using n by simp
    then have m: "map_of results ''000002''
            = Some (row_record default_rating_score_map perfect_fit 1000 example_dates
                      (rows example_table ! 1))"
      using all later c1 by metis
    show ?thesis
      by (simp only: Inr sum.case) (rule conjI [OF k conjI [OF l m]])
  qed
qed

lemma duplicate_table_dates: "date_columns_of duplicate_table = Inr example_dates"
  by (simp add: date_columns_of_def selected_columns_def sort_labels_def duplicate_table_def
      example_dates_def startswith_def col_stock_code_def)

lemma duplicate_table_codes:
  "map stock_code_of (rows duplicate_table) = [''000001'', ''000001'']"
  by (simp add: duplicate_table_def stock_code_of_def row_get_def)

lemma duplicate_table_index: "\<forall>r \<in> set (rows duplicate_table). is_LInt (idx r)"
  by (simp add: duplicate_table_def)

text \<open>A table with date columns and two rows of the same stock code gives one record.\<close>

theorem batch_drops_duplicate_identifier_counterexample:
  "date_columns_of duplicate_table = Inr example_dates \<and>
   length (rows duplicate_table) = 2 \<and>
   map_sum id length
     (batch_calculate_rtsi default_rating_score_map perfect_fit (\<lambda>k. 1000) 5000
        (Some duplicate_table)) = Inr 1"
proof -
  have n: "length (rows duplicate_table) = 2"
    by (simp add: duplicate_table_def)
  obtain results where rs: "batch_rows default_rating_score_map perfect_fit (\<lambda>k. 1000)
                              example_dates 0 (rows duplicate_table) [] = Inr results"
    using batch_rows_returns [OF duplicate_table_index] by blast
  have t: "(5000::int) \<noteq> 0" by simp
  have out: "batch_calculate_rtsi default_rating_score_map perfect_fit (\<lambda>k. 1000) 5000
               (Some duplicate_table) = Inr results"
    by (rule batch_with_dates [OF duplicate_table_dates example_dates_nonempty rs t])
  have "fst ` set results = set (map stock_code_of (rows duplicate_table))"
    using batch_rows_keys [OF rs] by simp
  then have k: "set (map fst results) = {''000001''}"
    by (simp add: duplicate_table_codes)
  have "distinct (map fst results)"
    by (rule batch_rows_distinct [OF rs]) simp
  then have "length (map fst results) = card {''000001''}"
    using k distinct_card by metis
  then have "length results = 1" by simp
  then show ?thesis
    using n by (simp add: out duplicate_table_dates)
qed

text \<open>The three ways in which the batch raises instead of returning: a string index label
  in the progress test, a batch time of zero in the last line, and date labels of both
  kinds in the sort.\<close>

lemma batch_raises_on_string_index:
  "batch_calculate_rtsi M lr clock batch_elapsed (Some string_index_table) = Inl TypeError"
  by (simp add: batch_calculate_rtsi_def date_columns_of_def selected_columns_def
      sort_labels_def string_index_table_def startswith_def Let_def)

lemma batch_raises_on_zero_time:
  "batch_calculate_rtsi M lr clock 0 (Some example_table) = Inl ZeroDivisionError"
proof -
  obtain results where rs: "batch_rows M lr clock example_dates 0 (rows example_table) []
                              = Inr results"
    using batch_rows_returns [OF example_table_index] by blast
  have "length (rows example_table) \<noteq> 0" by (simp add: example_table_def)
  then show ?thesis
    using example_dates_nonempty
    by (simp add: batch_calculate_rtsi_def example_table_dates rs del: batch_rows.simps)
qed

lemma batch_raises_on_mixed_dates:
  "batch_calculate_rtsi M lr clock batch_elapsed (Some mixed_dates_table) = Inl TypeError"
  by (simp add: batch_calculate_rtsi_def date_columns_of_def selected_columns_def
      sort_labels_def mixed_dates_table_def startswith_def str_int_def digits.simps
      digit_char_def)

lemma integer_dates_sorted_by_value:
  "date_columns_of integer_dates_table = Inr [LInt 2026, LInt 20250601, LInt 20250602]"
  by (simp add: date_columns_of_def selected_columns_def sort_labels_def
      integer_dates_table_def startswith_def col_stock_code_def str_int_def digits.simps
      digit_char_def)

section \<open>Date columns\<close>

text \<open>C9: the batch engine takes as date columns exactly the columns whose label, read as a
  string, starts with \<open>'202'\<close>, each as often as it occurs. When these labels are all
  strings or all integers they are put in ascending order (lexicographic for strings, by
  value for integers), and the record stored for a row is the score of that row's cells
  taken in this order. When no label starts with \<open>'202'\<close> the result is the empty
  dictionary, and no exception is raised.\<close>

theorem date_columns_selected_and_sorted:
  "((\<forall>c \<in> set (columns df). \<not> startswith (str_label c) ''202'')
      \<longrightarrow> batch_calculate_rtsi M lr clock batch_elapsed (Some df) = Inr []) \<and>
   ((list_all is_LStr (selected_columns df) \<or> list_all is_LInt (selected_columns df))
      \<longrightarrow> (\<exists>dc. date_columns_of df = Inr dc)) \<and>
   (date_columns_of df = Inr dc \<longrightarrow>
      set dc = {c \<in> set (columns df). startswith (str_label c) ''202''} \<and>
      mset dc = mset (filter (\<lambda>c. startswith (str_label c) ''202'') (columns df)) \<and>
      sorted_wrt label_le dc \<and>
      (dc \<noteq> [] \<and> (\<forall>r \<in> set (rows df). is_LInt (idx r)) \<and> batch_elapsed \<noteq> 0 \<longrightarrow>
         (case batch_calculate_rtsi M lr clock batch_elapsed (Some df) of
            Inl e \<Rightarrow> False
          | Inr results \<Rightarrow>
              \<forall>i < length (rows df).
                (\<forall>j. i < j \<and> j < length (rows df)
                       \<longrightarrow> stock_code_of (rows df ! j) \<noteq> stock_code_of (rows df ! i))
                \<longrightarrow> map_of results (stock_code_of (rows df ! i))
                      = Some (row_record M lr (clock i) dc (rows df ! i)))))"
proof -
  have a: "(\<forall>c \<in> set (columns df). \<not> startswith (str_label c) ''202'')
             \<longrightarrow> batch_calculate_rtsi M lr clock batch_elapsed (Some df) = Inr []"
  proof
    assume "\<forall>c \<in> set (columns df). \<not> startswith (str_label c) ''202''"
    then have "selected_columns df = []"
      by (simp add: selected_columns_def filter_empty_conv)
    then have "date_columns_of df = Inr []"
      by (simp add: date_columns_of_def sort_labels_def)
    then show "batch_calculate_rtsi M lr clock batch_elapsed (Some df) = Inr []"
      by (rule batch_without_dates)
  qed
  have b: "(list_all is_LStr (selected_columns df) \<or> list_all is_LInt (selected_columns df))
             \<longrightarrow> (\<exists>dc. date_columns_of df = Inr dc)"
    unfolding date_columns_of_def using sort_labels_homogeneous by blast
  have c: "date_columns_of df = Inr dc \<longrightarrow>
      set dc = {c \<in> set (columns df). startswith (str_label c) ''202''} \<and>
      mset dc = mset (filter (\<lambda>c. startswith (str_label c) ''202'') (columns df)) \<and>
      sorted_wrt label_le dc \<and>
      (dc \<noteq> [] \<and> (\<forall>r \<in> set (rows df). is_LInt (idx r)) \<and> batch_elapsed \<noteq> 0 \<longrightarrow>
         (case batch_calculate_rtsi M lr clock batch_elapsed (Some df) of
            Inl e \<Rightarrow> False
          | Inr results \<Rightarrow>
              \<forall>i < length (rows df).
                (\<forall>j. i < j \<and> j < length (rows df)
                       \<longrightarrow> stock_code_of (rows df ! j) \<noteq> stock_code_of (rows df ! i))
                \<longrightarrow> map_of results (stock_code_of (rows df ! i))
                      = Some (row_record M lr (clock i) dc (rows df ! i))))"
  proof
    assume dc: "date_columns_of df = Inr dc"
    then have sl: "sort_labels (selected_columns df) = Inr dc"
      by (simp add: date_columns_of_def)
    have m: "mset dc = mset (filter (\<lambda>c. startswith (str_label c) ''202'') (columns df))"
      using sort_labels_result [OF sl] by (simp add: selected_columns_def)
    have "set dc = set (filter (\<lambda>c. startswith (str_label c) ''202'') (columns df))"
      using m by (rule mset_eq_setD)
    then have s: "set dc = {c \<in> set (columns df). startswith (str_label c) ''202''}"
      by simp
    have so: "sorted_wrt label_le dc"
      using sort_labels_result [OF sl] by simp
    have p: "dc \<noteq> [] \<and> (\<forall>r \<in> set (rows df). is_LInt (idx r)) \<and> batch_elapsed \<noteq> 0 \<longrightarrow>
         (case batch_calculate_rtsi M lr clock batch_elapsed (Some df) of
            Inl e \<Rightarrow> False
          | Inr results \<Rightarrow>
              \<forall>i < length (rows df).
                (\<forall>j. i < j \<and> j < length (rows df)
                       \<longrightarrow> stock_code_of (rows df ! j) \<noteq> stock_code_of (rows df ! i))
                \<longrightarrow> map_of results (stock_code_of (rows df ! i))
                      = Some (row_record M lr (clock i) dc (rows df ! i)))"
    proof
      assume h: "dc \<noteq> [] \<and> (\<forall>r \<in> set (rows df). is_LInt (idx r)) \<and> batch_elapsed \<noteq> 0"
      obtain results where rs: "batch_rows M lr clock dc 0 (rows df) [] = Inr results"
        using batch_rows_returns h by blast
      have out: "batch_calculate_rtsi M lr clock batch_elapsed (Some df) = Inr results"
        using batch_with_dates [OF dc _ rs] h by blast
      have "\<forall>i < length (rows df).
                (\<forall>j. i < j \<and> j < length (rows df)
                       \<longrightarrow> stock_code_of (rows df ! j) \<noteq> stock_code_of (rows df ! i))
                \<longrightarrow> map_of results (stock_code_of (rows df ! i))
                      = Some (row_record M lr (clock i) dc (rows df ! i))"
        using batch_rows_last_wins [OF rs] by simp
      then show "case batch_calculate_rtsi M lr clock batch_elapsed (Some df) of
            Inl e \<Rightarrow> False
          | Inr results \<Rightarrow>
              \<forall>i < length (rows df).
                (\<forall>j. i < j \<and> j < length (rows df)
                       \<longrightarrow> stock_code_of (rows df ! j) \<noteq> stock_code_of (rows df ! i))
                \<longrightarrow> map_of results (stock_code_of (rows df ! i))
                      = Some (row_record M lr (clock i) dc (rows df ! i))"
        unfolding out sum.case .
    qed
    show "set dc = {c \<in> set (columns df). startswith (str_label c) ''202''} \<and>
      mset dc = mset (filter (\<lambda>c. startswith (str_label c) ''202'') (columns df)) \<and>
      sorted_wrt label_le dc \<and>
      (dc \<noteq> [] \<and> (\<forall>r \<in> set (rows df). is_LInt (idx r)) \<and> batch_elapsed \<noteq> 0 \<longrightarrow>
         (case batch_calculate_rtsi M lr clock batch_elapsed (Some df) of
            Inl e \<Rightarrow> False
          | Inr results \<Rightarrow>
              \<forall>i < length (rows df).
                (\<forall>j. i < j \<and> j < length (rows df)
                       \<longrightarrow> stock_code_of (rows df ! j) \<noteq> stock_code_of (rows df ! i))
                \<longrightarrow> map_of results (stock_code_of (rows df ! i))
                      = Some (row_record M lr (clock i) dc (rows df ! i))))"
      by (rule conjI [OF s conjI [OF m conjI [OF so p]]])
  qed
  show ?thesis
    by (rule conjI [OF a conjI [OF b c]])
qed

lemma undated_table_columns:
  "\<forall>c \<in> set (columns undated_table). \<not> startswith (str_label c) ''202''"
  by (simp add: undated_table_def startswith_def col_stock_code_def col_stock_name_def)

lemma example_table_first_code: "stock_code_of (rows example_table ! 0) = ''000001''"
  using arg_cong [OF example_table_codes, of "\<lambda>xs. xs ! 0"]
  by (simp add: example_table_def)

lemma example_table_first_unique:
  "\<forall>j. 0 < j \<and> j < length (rows example_table)
        \<longrightarrow> stock_code_of (rows example_table ! j) \<noteq> stock_code_of (rows example_table ! 0)"
proof (intro allI impI)
  fix j assume j: "0 < j \<and> j < length (rows example_table)"
  have n: "length (rows example_table) = 3" by (simp add: example_table_def)
  have "map stock_code_of (rows example_table) ! j \<noteq> ''000001''"
    using j n by (cases "j = 1"; cases "j = 2") (simp_all add: example_table_codes)
  then show "stock_code_of (rows example_table ! j) \<noteq> stock_code_of (rows example_table ! 0)"
    using j by (simp add: example_table_first_code)
qed

theorem date_columns_selected_and_sorted_witness:
  "batch_calculate_rtsi default_rating_score_map perfect_fit (\<lambda>k. 1000) 5000
     (Some undated_table) = Inr [] \<and>
   date_columns_of example_table
     = Inr (map LStr [''20250601'', ''20250602'', ''20250603'', ''20250604'', ''20250605'']) \<and>
   sorted_wrt label_le example_dates \<and>
   (case batch_calculate_rtsi default_rating_score_map perfect_fit (\<lambda>k. 1000) 5000
           (Some example_table) of
      Inl e \<Rightarrow> False
    | Inr results \<Rightarrow>
        map_of results ''000001''
          = Some (row_record default_rating_score_map perfect_fit 1000 example_dates
                    (rows example_table ! 0)))"
proof -
  note u = date_columns_selected_and_sorted [of undated_table default_rating_score_map
      perfect_fit "\<lambda>k. 1000" 5000]
  note e = date_columns_selected_and_sorted [of example_table default_rating_score_map
      perfect_fit "\<lambda>k. 1000" 5000 example_dates]
  have a: "batch_calculate_rtsi default_rating_score_map perfect_fit (\<lambda>k. 1000) 5000
             (Some undated_table) = Inr []"
    by (rule u [THEN conjunct1, THEN mp, OF undated_table_columns])
  have d: "date_columns_of example_table
             = Inr (map LStr [''20250601'', ''20250602'', ''20250603'', ''20250604'', ''20250605''])"
    by (simp only: example_table_dates example_dates_def)
  note c = e [THEN conjunct2, THEN conjunct2, THEN mp, OF example_table_dates]
  have so: "sorted_wrt label_le example_dates"
    by (rule c [THEN conjunct2, THEN conjunct2, THEN conjunct1])
  have h: "example_dates \<noteq> [] \<and> (\<forall>r \<in> set (rows example_table). is_LInt (idx r))
             \<and> (5000::int) \<noteq> 0"
    using example_dates_nonempty example_table_index by simp
  note p = c [THEN conjunct2, THEN conjunct2, THEN conjunct2, THEN mp, OF h]
  have b: "case batch_calculate_rtsi default_rating_score_map perfect_fit (\<lambda>k. 1000) 5000
                  (Some example_table) of
             Inl e \<Rightarrow> False
           | Inr results \<Rightarrow>
               map_of results ''000001''
                 = Some (row_record default_rating_score_map perfect_fit 1000 example_dates
                           (rows example_table ! 0))"
  proof (cases "batch_calculate_rtsi default_rating_score_map perfect_fit (\<lambda>k. 1000) 5000
                  (Some example_table)")
    case (Inl e)
    then show ?thesis using p by simp
  next
    case (Inr results)
    have n: "0 < length (rows example_table)" by (simp add: example_table_def)
    have "map_of results (stock_code_of (rows example_table ! 0))
            = Some (row_record default_rating_score_map perfect_fit 1000 example_dates
                      (rows example_table ! 0))"
      using p [unfolded Inr sum.case] n example_table_first_unique by blast
    then show ?thesis
      by (simp only: Inr sum.case example_table_first_code)
  qed
  show ?thesis
    by (rule conjI [OF a conjI [OF d conjI [OF so b]]])
qed

text \<open>A label that begins with the year 1999 is not taken as a date column, and the label
  \<open>'202x'\<close>, which begins with no four-digit year, is.\<close>

theorem date_columns_year_prefix_counterexample:
  "begins_with_year ''19991231'' \<and>
   LStr ''19991231'' \<in> set (columns year_table) \<and>
   \<not> begins_with_year ''202x'' \<and>
   date_columns_of year_table = Inr [LStr ''202x'']"
  by (simp add: begins_with_year_def year_table_def date_columns_of_def selected_columns_def
      sort_labels_def startswith_def col_stock_code_def)

section \<open>Batch result sets can be ranked\<close>

text \<open>Whenever batch scoring returns, every record of its result holds a number under
  \<open>rtsi\<close>, which is the hypothesis of the ranking theorem.\<close>

lemma row_record_comparable: "rtsi_comparable (row_record M lr elapsed dc r)"
proof -
  obtain x where "calculate_rating_trend_strength_index M lr elapsed
                    (Some (map (\<lambda>c. row_get r c CNaN) dc)) ''rtsi'' = Some (PNum x)"
    using calculate_rtsi_is_number by blast
  then show ?thesis
    by (simp add: row_record_def rtsi_comparable_def rtsi_of_def dict_get_def)
qed

lemma batch_rows_comparable:
  assumes "batch_rows M lr clock dc k rs res = Inr results"
    and "\<forall>(c, d) \<in> set res. rtsi_comparable d"
  shows "\<forall>(c, d) \<in> set results. rtsi_comparable d"
  using assms
proof (induction rs arbitrary: k res)
  case Nil
  then show ?case by simp
next
  case (Cons r rs)
  have "\<forall>(c, d) \<in> set (dict_set res (stock_code_of r) (row_record M lr (clock k) dc r)).
          rtsi_comparable d"
    using Cons.prems(2) row_record_comparable [of M lr "clock k" dc r]
      dict_set_subset [of res "stock_code_of r" "row_record M lr (clock k) dc r"]
    by auto
  then show ?case
    by (rule Cons.IH [OF batch_rows_step [OF Cons.prems(1), THEN conjunct2]])
qed

lemma batch_results_comparable:
  assumes "batch_calculate_rtsi M lr clock batch_elapsed stock_data = Inr results"
  shows "\<forall>(c, d) \<in> set results. rtsi_comparable d"
proof -
  have e: "\<forall>(c, d) \<in> set ([] :: (string \<times> pydict) list). rtsi_comparable d" by simp
  have "results = [] \<or> (\<exists>dc k rs. batch_rows M lr clock dc k rs [] = Inr results)"
    using assms
    by (auto simp: batch_calculate_rtsi_def simp del: batch_rows.simps
        split: option.splits sum.splits if_splits)
  then show ?thesis
  proof
    assume "results = []"
    then show ?thesis by simp
  next
    assume "\<exists>dc k rs. batch_rows M lr clock dc k rs [] = Inr results"
    then obtain dc k rs where "batch_rows M lr clock dc k rs [] = Inr results" by blast
    then show ?thesis by (rule batch_rows_comparable [OF _ e])
  qed
qed

end
